theory Spec2Isabelle
  imports Complex_Main "HOL-Library.Sublist"
begin

section \<open>Values and exceptions of the Python program\<close>

text \<open>
  \<^verbatim>\<open>btc_parser.py\<close> reads JSON documents of the blockchain.info API and picks fields
  out of them. The value returned by \<^verbatim>\<open>response.json()\<close> is a Python object built
  from \<^verbatim>\<open>None\<close>, booleans, numbers, strings, lists and dictionaries with string
  keys. A dictionary is kept as an association list in insertion order, read with
  \<open>map_of\<close>. A float is kept as the rational it denotes (the non-standard tokens
  NaN and Infinity are left out; the program never does arithmetic on a number).
\<close>

datatype json =
    JNull
  | JBool bool
  | JInt int
  | JFloat rat
  | JStr string
  | JArr "json list"
  | JObj "(string \<times> json) list"

text \<open>
  The exceptions that the program can meet. \<open>HTTPError\<close> is a subclass of
  \<open>RequestException\<close>; the JSON decoding error of \<^verbatim>\<open>response.json()\<close> is a
  \<open>ValueError\<close>.
\<close>

datatype py_error = RequestException | HTTPError | ValueError | KeyError | IndexError | TypeError

fun is_instance :: "py_error \<Rightarrow> py_error \<Rightarrow> bool" where
  "is_instance e c = (e = c \<or> (e = HTTPError \<and> c = RequestException))"

definition except_matches :: "py_error \<Rightarrow> py_error list \<Rightarrow> bool" where
  "except_matches e cs = list_ex (is_instance e) cs"

text \<open>Sequencing of two computations that may raise: the first exception wins.\<close>

definition bind_result :: "py_error + 'a \<Rightarrow> ('a \<Rightarrow> py_error + 'b) \<Rightarrow> py_error + 'b" where
  "bind_result r f = (case r of Inl e \<Rightarrow> Inl e | Inr v \<Rightarrow> f v)"

subsection \<open>Python's operators on a decoded JSON value\<close>

text \<open>\<^verbatim>\<open>x[k]\<close> with a string \<open>k\<close>: only a dictionary accepts a string subscript.\<close>

fun subscript_key :: "json \<Rightarrow> string \<Rightarrow> py_error + json" where
  "subscript_key (JObj kvs) k = (case map_of kvs k of None \<Rightarrow> Inl KeyError | Some v \<Rightarrow> Inr v)"
| "subscript_key _ k = Inl TypeError"

text \<open>
  \<^verbatim>\<open>x[i]\<close> with a non-negative integer \<open>i\<close>: a list and a string are indexed, a
  dictionary decoded from JSON has no integer key, anything else is not subscriptable.
\<close>

fun subscript_index :: "json \<Rightarrow> nat \<Rightarrow> py_error + json" where
  "subscript_index (JArr xs) i = (if i < length xs then Inr (xs ! i) else Inl IndexError)"
| "subscript_index (JStr s) i = (if i < length s then Inr (JStr [s ! i]) else Inl IndexError)"
| "subscript_index (JObj kvs) i = Inl KeyError"
| "subscript_index _ i = Inl TypeError"

text \<open>
  \<^verbatim>\<open>for v in x\<close>: a list yields its elements, a dictionary its keys, a string its
  characters; anything else is not iterable.
\<close>

fun iterate :: "json \<Rightarrow> py_error + json list" where
  "iterate (JArr xs) = Inr xs"
| "iterate (JObj kvs) = Inr (map (\<lambda>kv. JStr (fst kv)) kvs)"
| "iterate (JStr s) = Inr (map (\<lambda>c. JStr [c]) s)"
| "iterate _ = Inl TypeError"

text \<open>
  \<^verbatim>\<open>k in x\<close> with a string \<open>k\<close>: key membership in a dictionary, element membership
  in a list, substring test in a string.
\<close>

fun contains_str :: "string \<Rightarrow> json \<Rightarrow> py_error + bool" where
  "contains_str k (JObj kvs) = Inr (k \<in> set (map fst kvs))"
| "contains_str k (JArr xs) = Inr (JStr k \<in> set xs)"
| "contains_str k (JStr s) = Inr (sublist k s)"
| "contains_str k _ = Inl TypeError"

text \<open>\<^verbatim>\<open>len(x)\<close>.\<close>

fun py_len :: "json \<Rightarrow> py_error + nat" where
  "py_len (JArr xs) = Inr (length xs)"
| "py_len (JObj kvs) = Inr (length kvs)"
| "py_len (JStr s) = Inr (length s)"
| "py_len _ = Inl TypeError"

text \<open>The truth value of an object in an \<^verbatim>\<open>if\<close> or under \<^verbatim>\<open>and\<close>.\<close>

fun truthy :: "json \<Rightarrow> bool" where
  "truthy JNull = False"
| "truthy (JBool b) = b"
| "truthy (JInt i) = (i \<noteq> 0)"
| "truthy (JFloat r) = (r \<noteq> 0)"
| "truthy (JStr s) = (s \<noteq> [])"
| "truthy (JArr xs) = (xs \<noteq> [])"
| "truthy (JObj kvs) = (kvs \<noteq> [])"

text \<open>\<^verbatim>\<open>x == self.watch_address\<close>, the watched address being a string.\<close>

definition eq_str :: "json \<Rightarrow> string \<Rightarrow> bool" where
  "eq_str x w = (x = JStr w)"

subsection \<open>The HTTP boundary\<close>

text \<open>
  \<^verbatim>\<open>requests.get(url)\<close> either raises a \<open>RequestException\<close> (no connection, timeout)
  or returns a response. Of a response the program uses the status and the decoded body;
  \<open>body = None\<close> stands for a body that is not valid JSON. The \<^verbatim>\<open>requests\<close> library
  is not part of the repository; \<open>raise_for_status\<close> and \<open>ok\<close> follow its documented
  behaviour: \<^verbatim>\<open>raise_for_status()\<close> raises \<open>HTTPError\<close> for a status from 400 to 599,
  and \<^verbatim>\<open>ok\<close> is false exactly when it raises.
\<close>

record response =
  status_code :: nat
  body :: "json option"

datatype http_reply = NetworkFault | Reply response

definition requests_get :: "http_reply \<Rightarrow> py_error + response" where
  "requests_get reply = (case reply of NetworkFault \<Rightarrow> Inl RequestException | Reply r \<Rightarrow> Inr r)"

definition raise_for_status :: "response \<Rightarrow> py_error + unit" where
  "raise_for_status r =
     (if 400 \<le> status_code r \<and> status_code r < 600 then Inl HTTPError else Inr ())"

definition ok :: "response \<Rightarrow> bool" where
  "ok r = (case raise_for_status r of Inl e \<Rightarrow> False | Inr u \<Rightarrow> True)"

definition response_json :: "response \<Rightarrow> py_error + json" where
  "response_json r = (case body r of None \<Rightarrow> Inl ValueError | Some v \<Rightarrow> Inr v)"

section \<open>BtcAddressMonitoring\<close>

text \<open>
  The object state. \<open>addr_matrix\<close> is \<^verbatim>\<open>self.matrix\<close> of this class, which no method
  reads or writes (it is named apart from the field of the block scanner). An entry of
  \<open>transaction_list\<close> is the tuple \<^verbatim>\<open>(from_address, to_address, amount)\<close>.
\<close>

type_synonym transfer = "json \<times> json \<times> json"

record address_monitor =
  watch_address :: string
  transaction_list :: "transfer list"
  addr_matrix :: "json list list"

definition new_address_monitor :: "string \<Rightarrow> address_monitor" where
  "new_address_monitor w = \<lparr>watch_address = w, transaction_list = [], addr_matrix = []\<rparr>"

text \<open>
  The message printed by an \<^verbatim>\<open>except\<close> clause of the two boolean methods, kept as the
  clause that printed it and the exception it caught.
\<close>

datatype diag = RetrieveFailed py_error | JsonFailed py_error | FormatFailed py_error

subsection \<open>\<open>is_tx_transaction_from_btc_address\<close>\<close>

text \<open>\<^verbatim>\<open>transaction['inputs'][0]['prev_out']['addr']\<close>\<close>

definition first_input_addr :: "json \<Rightarrow> py_error + json" where
  "first_input_addr transaction =
     bind_result (subscript_key transaction ''inputs'') (\<lambda>inputs.
     bind_result (subscript_index inputs 0) (\<lambda>input0.
     bind_result (subscript_key input0 ''prev_out'') (\<lambda>prev_out.
     subscript_key prev_out ''addr'')))"

text \<open>The \<^verbatim>\<open>for\<close> loop of the third \<^verbatim>\<open>try\<close> block; \<open>Inr False\<close> is falling off its end.\<close>

fun tx_loop :: "string \<Rightarrow> json list \<Rightarrow> py_error + bool" where
  "tx_loop w [] = Inr False"
| "tx_loop w (transaction # rest) =
     (case first_input_addr transaction of
        Inl e \<Rightarrow> Inl e
      | Inr a \<Rightarrow> if eq_str a w then Inr True else tx_loop w rest)"

text \<open>
  The first \<^verbatim>\<open>try\<close> block of both boolean methods: the request and
  \<^verbatim>\<open>raise_for_status()\<close>.
\<close>

definition get_checked :: "http_reply \<Rightarrow> py_error + response" where
  "get_checked reply =
     bind_result (requests_get reply) (\<lambda>r.
     bind_result (raise_for_status r) (\<lambda>u. Inr r))"

text \<open>
  The three \<^verbatim>\<open>try\<close> blocks in a row, with the loop of the third as a parameter. The
  result is the returned boolean with the message printed on the way, or the exception
  that no clause caught.
\<close>

definition unconfirmed_check ::
    "(json list \<Rightarrow> py_error + bool) \<Rightarrow> http_reply \<Rightarrow> py_error + (bool \<times> diag option)" where
  "unconfirmed_check loop reply =
     (case get_checked reply of
        Inl err \<Rightarrow>
          if except_matches err [RequestException, ValueError]
          then Inr (False, Some (RetrieveFailed err)) else Inl err
      | Inr r \<Rightarrow>
          (case response_json r of
             Inl err \<Rightarrow>
               if except_matches err [ValueError]
               then Inr (False, Some (JsonFailed err)) else Inl err
           | Inr unconfirmed_transactions \<Rightarrow>
               (case bind_result (subscript_key unconfirmed_transactions ''txs'') (\<lambda>txs.
                     bind_result (iterate txs) loop) of
                  Inl err \<Rightarrow>
                    if except_matches err [KeyError, IndexError]
                    then Inr (False, Some (FormatFailed err)) else Inl err
                | Inr b \<Rightarrow> Inr (b, None))))"

text \<open>
  The body of the third \<^verbatim>\<open>try\<close> block on its own, as it stands in
  \<open>unconfirmed_check\<close>: the subscript \<^verbatim>\<open>['txs']\<close>, the iteration and the loop.
\<close>

definition feed_scan :: "(json list \<Rightarrow> py_error + bool) \<Rightarrow> json \<Rightarrow> py_error + bool" where
  "feed_scan loop unconfirmed_transactions =
     bind_result (subscript_key unconfirmed_transactions ''txs'') (\<lambda>txs.
     bind_result (iterate txs) loop)"

definition is_tx_transaction_from_btc_address ::
    "address_monitor \<Rightarrow> http_reply \<Rightarrow> py_error + (bool \<times> diag option)" where
  "is_tx_transaction_from_btc_address self reply =
     unconfirmed_check (tx_loop (watch_address self)) reply"

subsection \<open>\<open>is_rx_transaction_to_btc_address\<close>\<close>

text \<open>
  The inner loop over \<^verbatim>\<open>transaction['out']\<close>; \<^verbatim>\<open>and\<close> evaluates its right operand
  only when the left one is true.
\<close>

fun out_loop :: "string \<Rightarrow> json list \<Rightarrow> py_error + bool" where
  "out_loop w [] = Inr False"
| "out_loop w (output # rest) =
     (case contains_str ''addr'' output of
        Inl e \<Rightarrow> Inl e
      | Inr False \<Rightarrow> out_loop w rest
      | Inr True \<Rightarrow>
          (case subscript_key output ''addr'' of
             Inl e \<Rightarrow> Inl e
           | Inr a \<Rightarrow> if eq_str a w then Inr True else out_loop w rest))"

fun rx_loop :: "string \<Rightarrow> json list \<Rightarrow> py_error + bool" where
  "rx_loop w [] = Inr False"
| "rx_loop w (transaction # rest) =
     (case bind_result (subscript_key transaction ''out'') (\<lambda>out.
           bind_result (iterate out) (out_loop w)) of
        Inl e \<Rightarrow> Inl e
      | Inr True \<Rightarrow> Inr True
      | Inr False \<Rightarrow> rx_loop w rest)"

definition is_rx_transaction_to_btc_address ::
    "address_monitor \<Rightarrow> http_reply \<Rightarrow> py_error + (bool \<times> diag option)" where
  "is_rx_transaction_to_btc_address self reply =
     unconfirmed_check (rx_loop (watch_address self)) reply"

subsection \<open>\<open>get_transactions_from_btc_address\<close>\<close>

text \<open>
  The body of the loop over \<^verbatim>\<open>data["txs"]\<close> for one transaction: \<open>Inr None\<close> when
  nothing is appended, \<open>Inr (Some t)\<close> when the tuple \<open>t\<close> is appended. A conditional
  expression \<^verbatim>\<open>a if c else b\<close> evaluates \<open>c\<close> first and then only one of \<open>a\<close> and
  \<open>b\<close>; Python's \<^verbatim>\<open>None\<close> is \<open>JNull\<close>.
\<close>

definition from_address_of :: "json \<Rightarrow> py_error + json" where
  "from_address_of tx =
     bind_result (subscript_key tx ''inputs'') (\<lambda>c.
       if truthy c
       then bind_result (subscript_key tx ''inputs'') (\<lambda>inputs.
            bind_result (subscript_index inputs 0) (\<lambda>input0.
            bind_result (subscript_key input0 ''prev_out'') (\<lambda>prev_out.
            subscript_key prev_out ''addr'')))
       else Inr JNull)"

definition to_address_of :: "json \<Rightarrow> py_error + json" where
  "to_address_of tx =
     bind_result (subscript_key tx ''out'') (\<lambda>c.
       if truthy c
       then bind_result (subscript_key tx ''out'') (\<lambda>out.
            bind_result (subscript_index out 0) (\<lambda>out0.
            subscript_key out0 ''addr''))
       else Inr JNull)"

definition amount_of :: "json \<Rightarrow> py_error + json" where
  "amount_of tx =
     bind_result (subscript_key tx ''out'') (\<lambda>c.
       if truthy c
       then bind_result (subscript_key tx ''out'') (\<lambda>out.
            bind_result (subscript_index out 0) (\<lambda>out0.
            bind_result (contains_str ''value'' out0) (\<lambda>has_value.
              if has_value
              then bind_result (subscript_key tx ''out'') (\<lambda>out'.
                   bind_result (subscript_index out' 0) (\<lambda>out0'.
                   subscript_key out0' ''value''))
              else Inr JNull)))
       else Inr JNull)"

definition history_step :: "json \<Rightarrow> py_error + transfer option" where
  "history_step tx =
     bind_result (contains_str ''inputs'' tx) (\<lambda>has_inputs.
       if \<not> has_inputs then Inr None
       else bind_result (contains_str ''out'' tx) (\<lambda>has_out.
         if \<not> has_out then Inr None
         else bind_result (from_address_of tx) (\<lambda>from_address.
              bind_result (to_address_of tx) (\<lambda>to_address.
              bind_result (amount_of tx) (\<lambda>amount.
                if truthy from_address \<and> truthy to_address \<and> truthy amount
                then Inr (Some (from_address, to_address, amount))
                else Inr None)))))"

text \<open>
  The loop appends to \<^verbatim>\<open>self.transaction_list\<close> as it goes, so an exception leaves
  behind what was appended before it: the loop returns the list together with the
  exception that stopped it, if any.
\<close>

fun history_loop :: "json list \<Rightarrow> transfer list \<Rightarrow> py_error option \<times> transfer list" where
  "history_loop [] acc = (None, acc)"
| "history_loop (tx # rest) acc =
     (case history_step tx of
        Inl e \<Rightarrow> (Some e, acc)
      | Inr None \<Rightarrow> history_loop rest acc
      | Inr (Some t) \<Rightarrow> history_loop rest (acc @ [t]))"

text \<open>
  The method returns \<^verbatim>\<open>self.transaction_list\<close> or raises; in both cases the object is
  left in a new state, the second component. Nothing here is inside a \<^verbatim>\<open>try\<close>.
\<close>

definition get_transactions_from_btc_address ::
    "address_monitor \<Rightarrow> http_reply \<Rightarrow> (py_error + transfer list) \<times> address_monitor" where
  "get_transactions_from_btc_address self reply =
     (case requests_get reply of
        Inl e \<Rightarrow> (Inl e, self)
      | Inr r \<Rightarrow>
          if ok r then
            (case response_json r of
               Inl e \<Rightarrow> (Inl e, self)
             | Inr data \<Rightarrow>
                 (case contains_str ''txs'' data of
                    Inl e \<Rightarrow> (Inl e, self)
                  | Inr False \<Rightarrow> (Inr (transaction_list self), self)
                  | Inr True \<Rightarrow>
                      (case bind_result (subscript_key data ''txs'') iterate of
                         Inl e \<Rightarrow> (Inl e, self)
                       | Inr txs \<Rightarrow>
                           (case history_loop txs (transaction_list self) of
                              (Some e, l) \<Rightarrow> (Inl e, self\<lparr>transaction_list := l\<rparr>)
                            | (None, l) \<Rightarrow> (Inr l, self\<lparr>transaction_list := l\<rparr>)))))
          else (Inr [], self\<lparr>transaction_list := []\<rparr>))"

section \<open>BtcBlockMonitoring\<close>

text \<open>A row of \<^verbatim>\<open>self.matrix\<close> is the three-element list \<^verbatim>\<open>[sender, recipient, amount]\<close>.\<close>

record block_monitor =
  start_block :: int
  end_block :: int
  matrix :: "json list list"

definition new_block_monitor :: "int \<Rightarrow> int \<Rightarrow> block_monitor" where
  "new_block_monitor s e = \<lparr>start_block = s, end_block = e, matrix = []\<rparr>"

text \<open>
  The three local lists \<^verbatim>\<open>sender_addresses\<close>, \<^verbatim>\<open>recipient_addresses\<close> and
  \<^verbatim>\<open>amounts\<close>. They are lost when an exception leaves the method, so each loop that
  fills them returns either the exception or the lists.
\<close>

record scan_lists =
  sender_addresses :: "json list"
  recipient_addresses :: "json list"
  amounts :: "json list"

fun inputs_loop :: "json list \<Rightarrow> scan_lists \<Rightarrow> py_error + scan_lists" where
  "inputs_loop [] ls = Inr ls"
| "inputs_loop (input_data # rest) ls =
     bind_result (bind_result (subscript_key input_data ''prev_out'') (\<lambda>p. subscript_key p ''addr''))
       (\<lambda>sender_address.
     bind_result (bind_result (subscript_key input_data ''prev_out'') (\<lambda>p. subscript_key p ''value''))
       (\<lambda>amount.
     inputs_loop rest
       (ls\<lparr>sender_addresses := sender_addresses ls @ [sender_address],
           amounts := amounts ls @ [amount]\<rparr>)))"

fun outputs_loop :: "json list \<Rightarrow> scan_lists \<Rightarrow> py_error + scan_lists" where
  "outputs_loop [] ls = Inr ls"
| "outputs_loop (output_data # rest) ls =
     bind_result (subscript_key output_data ''addr'') (\<lambda>recipient_address.
     bind_result (subscript_key output_data ''value'') (\<lambda>amount.
     outputs_loop rest
       (ls\<lparr>recipient_addresses := recipient_addresses ls @ [recipient_address]\<rparr>)))"

text \<open>
  One transaction of a block: the test \<^verbatim>\<open>len(tx["inputs"]) > 1 and len(tx["out"]) > 1\<close>
  (the right operand is evaluated only when the left one holds) and the loop over the
  inputs followed by the loop over the outputs.
\<close>

definition mix_step :: "json \<Rightarrow> scan_lists \<Rightarrow> py_error + scan_lists" where
  "mix_step tx ls =
     bind_result (bind_result (subscript_key tx ''inputs'') py_len) (\<lambda>n_in.
       if \<not> 1 < n_in then Inr ls
       else bind_result (bind_result (subscript_key tx ''out'') py_len) (\<lambda>n_out.
         if \<not> 1 < n_out then Inr ls
         else bind_result (bind_result (subscript_key tx ''inputs'') iterate) (\<lambda>inputs.
              bind_result (inputs_loop inputs ls) (\<lambda>ls'.
              bind_result (bind_result (subscript_key tx ''out'') iterate) (\<lambda>outs.
              outputs_loop outs ls')))))"

fun block_tx_loop :: "json list \<Rightarrow> scan_lists \<Rightarrow> py_error + scan_lists" where
  "block_tx_loop [] ls = Inr ls"
| "block_tx_loop (tx # rest) ls = bind_result (mix_step tx ls) (block_tx_loop rest)"

text \<open>
  The loop over the block numbers. \<open>api\<close> is what \<^verbatim>\<open>requests.get\<close> meets for each
  block number during the call.
\<close>

fun block_loop :: "(int \<Rightarrow> http_reply) \<Rightarrow> int list \<Rightarrow> scan_lists \<Rightarrow> py_error + scan_lists" where
  "block_loop api [] ls = Inr ls"
| "block_loop api (block_num # rest) ls =
     bind_result (requests_get (api block_num)) (\<lambda>r.
       if ok r then
         bind_result (response_json r) (\<lambda>block_data.
         bind_result (bind_result (subscript_key block_data ''tx'') iterate) (\<lambda>txs.
         bind_result (block_tx_loop txs ls) (\<lambda>ls'.
         block_loop api rest ls')))
       else block_loop api rest ls)"

text \<open>
  The final loop over \<^verbatim>\<open>range(len(sender_addresses))\<close>. It appends to
  \<^verbatim>\<open>self.matrix\<close> as it goes; reading a list beyond its end raises \<open>IndexError\<close>.
\<close>

fun pairing_loop :: "scan_lists \<Rightarrow> nat list \<Rightarrow> json list list \<Rightarrow> py_error option \<times> json list list" where
  "pairing_loop ls [] m = (None, m)"
| "pairing_loop ls (i # rest) m =
     (case bind_result (subscript_index (JArr (sender_addresses ls)) i) (\<lambda>s.
           bind_result (subscript_index (JArr (recipient_addresses ls)) i) (\<lambda>r.
           bind_result (subscript_index (JArr (amounts ls)) i) (\<lambda>a. Inr [s, r, a]))) of
        Inl e \<Rightarrow> (Some e, m)
      | Inr transaction \<Rightarrow> pairing_loop ls rest (m @ [transaction]))"

definition get_mixed_btc_transactions_from_btc_blocks ::
    "block_monitor \<Rightarrow> (int \<Rightarrow> http_reply) \<Rightarrow> (py_error + json list list) \<times> block_monitor" where
  "get_mixed_btc_transactions_from_btc_blocks self api =
     (case block_loop api [start_block self .. end_block self]
             \<lparr>sender_addresses = [], recipient_addresses = [], amounts = []\<rparr> of
        Inl e \<Rightarrow> (Inl e, self)
      | Inr ls \<Rightarrow>
          (case pairing_loop ls [0 ..< length (sender_addresses ls)] (matrix self) of
             (Some e, m) \<Rightarrow> (Inl e, self\<lparr>matrix := m\<rparr>)
           | (None, m) \<Rightarrow> (Inr m, self\<lparr>matrix := m\<rparr>)))"

section \<open>Notions of the specification\<close>

text \<open>
  The specification speaks of the field at a place of a JSON document, such as
  \<^verbatim>\<open>inputs[0].prev_out.addr\<close>. A place is a path of object keys and array positions;
  the field is absent when a key or a position is, or when the value met on the way is
  not an object or an array.
\<close>

datatype path_elem = Key string | Idx nat

fun json_path :: "json \<Rightarrow> path_elem list \<Rightarrow> json option" where
  "json_path v [] = Some v"
| "json_path (JObj kvs) (Key k # p) =
     (case map_of kvs k of None \<Rightarrow> None | Some v \<Rightarrow> json_path v p)"
| "json_path (JArr xs) (Idx i # p) = (if i < length xs then json_path (xs ! i) p else None)"
| "json_path _ _ = None"

definition first_input_path :: "path_elem list" where
  "first_input_path = [Key ''inputs'', Idx 0, Key ''prev_out'', Key ''addr'']"

definition first_output_addr_path :: "path_elem list" where
  "first_output_addr_path = [Key ''out'', Idx 0, Key ''addr'']"

definition first_output_value_path :: "path_elem list" where
  "first_output_value_path = [Key ''out'', Idx 0, Key ''value'']"

text \<open>
  The NormalizedTransfer of a transaction: the first input's source address and the
  first output's address and amount, when all three are there and are neither empty
  nor zero.
\<close>

definition normalized_transfer :: "json \<Rightarrow> transfer option" where
  "normalized_transfer tx =
     (case (json_path tx first_input_path, json_path tx first_output_addr_path,
            json_path tx first_output_value_path) of
        (Some f, Some t, Some a) \<Rightarrow>
          if truthy f \<and> truthy t \<and> truthy a then Some (f, t, a) else None
      | _ \<Rightarrow> None)"

definition is_object :: "json \<Rightarrow> bool" where
  "is_object v = (case v of JObj kvs \<Rightarrow> True | _ \<Rightarrow> False)"

text \<open>A JSON object that has no field \<open>k\<close>.\<close>

definition lacks_key :: "json \<Rightarrow> string \<Rightarrow> bool" where
  "lacks_key v k = (case v of JObj kvs \<Rightarrow> map_of kvs k = None | _ \<Rightarrow> False)"

text \<open>The transactions of an unconfirmed feed: the array under \<open>txs\<close> of the body.\<close>

definition feed_txs :: "http_reply \<Rightarrow> json list" where
  "feed_txs reply =
     (case reply of
        NetworkFault \<Rightarrow> []
      | Reply r \<Rightarrow>
          (case body r of
             None \<Rightarrow> []
           | Some feed \<Rightarrow>
               (case json_path feed [Key ''txs''] of Some (JArr txs) \<Rightarrow> txs | _ \<Rightarrow> [])))"

text \<open>The first input of the transaction spends from the address \<open>w\<close>.\<close>

definition spends_from :: "string \<Rightarrow> json \<Rightarrow> bool" where
  "spends_from w tx = (json_path tx first_input_path = Some (JStr w))"

text \<open>The first input of the transaction has a source address field.\<close>

definition has_first_input_addr :: "json \<Rightarrow> bool" where
  "has_first_input_addr tx = (json_path tx first_input_path \<noteq> None)"

text \<open>The address field of the output is \<open>w\<close>; some output of the transaction is to \<open>w\<close>.\<close>

definition output_to :: "string \<Rightarrow> json \<Rightarrow> bool" where
  "output_to w output = (json_path output [Key ''addr''] = Some (JStr w))"

definition pays_to :: "string \<Rightarrow> json \<Rightarrow> bool" where
  "pays_to w tx =
     (case json_path tx [Key ''out''] of Some (JArr outs) \<Rightarrow> list_ex (output_to w) outs | _ \<Rightarrow> False)"

text \<open>
  The transaction is an object with an array \<open>out\<close> of objects, each with or without
  an address field.
\<close>

definition has_object_outputs :: "json \<Rightarrow> bool" where
  "has_object_outputs tx =
     (case json_path tx [Key ''out''] of Some (JArr outs) \<Rightarrow> list_all is_object outs | _ \<Rightarrow> False)"

text \<open>
  What the history method reads of a transaction without raising: an \<open>inputs\<close> array
  that is empty or whose first input has \<open>prev_out.addr\<close>, and an \<open>out\<close> array that
  is empty or whose first output has \<open>addr\<close> (its \<open>value\<close> may be absent). A
  transaction is passed without an exception when it is an object without the key
  \<open>inputs\<close> or without the key \<open>out\<close>, or when both arrays can be read.
\<close>

definition first_input_readable :: "json \<Rightarrow> bool" where
  "first_input_readable tx =
     (case json_path tx [Key ''inputs''] of
        Some (JArr ins) \<Rightarrow>
          (case ins of [] \<Rightarrow> True
           | i # rest \<Rightarrow> json_path i [Key ''prev_out'', Key ''addr''] \<noteq> None)
      | _ \<Rightarrow> False)"

definition first_output_readable :: "json \<Rightarrow> bool" where
  "first_output_readable tx =
     (case json_path tx [Key ''out''] of
        Some (JArr outs) \<Rightarrow>
          (case outs of [] \<Rightarrow> True | p # rest \<Rightarrow> json_path p [Key ''addr''] \<noteq> None)
      | _ \<Rightarrow> False)"

definition tolerated :: "json \<Rightarrow> bool" where
  "tolerated tx =
     (lacks_key tx ''inputs'' \<or> lacks_key tx ''out''
      \<or> (first_input_readable tx \<and> first_output_readable tx))"

text \<open>
  The invariant of the data model: an address is present and not empty, an amount is
  present and not zero.
\<close>

definition present_address :: "json \<Rightarrow> bool" where
  "present_address a = (a \<noteq> JNull \<and> a \<noteq> JStr [])"

definition present_amount :: "json \<Rightarrow> bool" where
  "present_amount a = (a \<noteq> JNull \<and> a \<noteq> JInt 0 \<and> a \<noteq> JFloat 0)"

definition transfer_ok :: "transfer \<Rightarrow> bool" where
  "transfer_ok t = (case t of (f, r, a) \<Rightarrow> present_address f \<and> present_address r \<and> present_amount a)"

definition row_ok :: "json list \<Rightarrow> bool" where
  "row_ok row =
     (case row of [s, r, a] \<Rightarrow> present_address s \<and> present_address r \<and> present_amount a
      | _ \<Rightarrow> False)"

text \<open>
  A caller that invokes the history method once for each reply of a list, going on
  after a call that raised.
\<close>

definition history_calls :: "address_monitor \<Rightarrow> http_reply list \<Rightarrow> address_monitor" where
  "history_calls = foldl (\<lambda>self reply. snd (get_transactions_from_btc_address self reply))"

subsection \<open>Sample documents\<close>

text \<open>Documents of the shapes that the API serves, for the scenarios below.\<close>

definition input_json :: "json \<Rightarrow> json \<Rightarrow> json" where
  "input_json a v = JObj [(''prev_out'', JObj [(''addr'', a), (''value'', v)])]"

definition output_json :: "json \<Rightarrow> json \<Rightarrow> json" where
  "output_json a v = JObj [(''addr'', a), (''value'', v)]"

definition tx_json :: "json list \<Rightarrow> json list \<Rightarrow> json" where
  "tx_json ins outs = JObj [(''inputs'', JArr ins), (''out'', JArr outs)]"

definition feed_json :: "json list \<Rightarrow> json" where
  "feed_json txs = JObj [(''txs'', JArr txs)]"

definition block_json :: "json list \<Rightarrow> json" where
  "block_json txs = JObj [(''tx'', JArr txs)]"

definition reply_with :: "nat \<Rightarrow> json \<Rightarrow> http_reply" where
  "reply_with status v = Reply \<lparr>status_code = status, body = Some v\<rparr>"

text \<open>An API that serves the same reply for every block number.\<close>

definition every_block :: "http_reply \<Rightarrow> int \<Rightarrow> http_reply" where
  "every_block reply block_num = reply"

section \<open>Basic facts\<close>

lemma bind_result_Inl [simp]: "bind_result (Inl e) f = Inl e"
  by (simp add: bind_result_def)

lemma bind_result_Inr [simp]: "bind_result (Inr v) f = f v"
  by (simp add: bind_result_def)

lemma bind_result_Inr_iff: "bind_result r f = Inr y \<longleftrightarrow> (\<exists>v. r = Inr v \<and> f v = Inr y)"
  by (cases r) auto

lemma bind_result_Inl_iff:
  "bind_result r f = Inl e \<longleftrightarrow> r = Inl e \<or> (\<exists>v. r = Inr v \<and> f v = Inl e)"
  by (cases r) auto

lemma json_path_Key_iff:
  "json_path v (Key k # p) = Some x \<longleftrightarrow>
     (\<exists>kvs u. v = JObj kvs \<and> map_of kvs k = Some u \<and> json_path u p = Some x)"
  by (cases v) (auto split: option.splits)

lemma json_path_Idx_iff:
  "json_path v (Idx i # p) = Some x \<longleftrightarrow>
     (\<exists>xs. v = JArr xs \<and> i < length xs \<and> json_path (xs ! i) p = Some x)"
  by (cases v) auto

lemma ok_iff: "ok r \<longleftrightarrow> \<not> (400 \<le> status_code r \<and> status_code r < 600)"
  by (simp add: ok_def raise_for_status_def)

lemma contains_str_obj: "contains_str k (JObj kvs) = Inr (map_of kvs k \<noteq> None)"
  by (simp add: map_of_eq_None_iff)

section \<open>The history fetch\<close>

text \<open>
  C4, as far as it holds. When the response of the history request has a status from
  400 to 599, the statuses for which \<^verbatim>\<open>response.ok\<close> is false, the call empties the
  cumulative transfer list, whatever it held from earlier calls, and returns the empty
  list.
\<close>

theorem failed_fetch_resets_list:
  "400 \<le> status_code r \<Longrightarrow> status_code r < 600 \<Longrightarrow>
   \<not> ok r \<and>
   get_transactions_from_btc_address self (Reply r) = (Inr [], self\<lparr>transaction_list := []\<rparr>)"
  by (simp add: get_transactions_from_btc_address_def requests_get_def ok_iff)

theorem failed_fetch_resets_list_witness:
  "transaction_list (snd (get_transactions_from_btc_address (new_address_monitor ''A'')
       (reply_with 200 (feed_json [tx_json [input_json (JStr ''A'') (JInt 7)]
                                            [output_json (JStr ''B'') (JInt 6)]]))))
     = [(JStr ''A'', JStr ''B'', JInt 6)]
   \<and> \<not> ok \<lparr>status_code = 500, body = None\<rparr>
   \<and> get_transactions_from_btc_address
       \<lparr>watch_address = ''A'', transaction_list = [(JStr ''A'', JStr ''B'', JInt 6)], addr_matrix = []\<rparr>
       (Reply \<lparr>status_code = 500, body = None\<rparr>)
     = (Inr [], \<lparr>watch_address = ''A'', transaction_list = [], addr_matrix = []\<rparr>)"
proof -
  have bad: "\<not> ok \<lparr>status_code = 500, body = None\<rparr>"
    by (simp add: ok_iff)
  have first: "transaction_list (snd (get_transactions_from_btc_address (new_address_monitor ''A'')
       (reply_with 200 (feed_json [tx_json [input_json (JStr ''A'') (JInt 7)]
                                            [output_json (JStr ''B'') (JInt 6)]]))))
     = [(JStr ''A'', JStr ''B'', JInt 6)]"
    by (simp add: get_transactions_from_btc_address_def new_address_monitor_def reply_with_def
        feed_json_def tx_json_def input_json_def output_json_def requests_get_def ok_iff
        response_json_def history_step_def from_address_of_def to_address_of_def amount_of_def)
  show ?thesis
    using first bad
      failed_fetch_resets_list [of "\<lparr>status_code = 500, body = None\<rparr>" "\<lparr>watch_address = ''A'',
        transaction_list = [(JStr ''A'', JStr ''B'', JInt 6)], addr_matrix = []\<rparr>"]
    by simp
qed

text \<open>
  C4 fails for a status outside 200 to 299 for which \<^verbatim>\<open>response.ok\<close> is still true,
  such as 300: the list of the earlier call is kept when the body has no \<open>txs\<close>, and
  it grows when the body has transactions.
\<close>

theorem redirect_status_keeps_list:
  "get_transactions_from_btc_address
     \<lparr>watch_address = ''A'', transaction_list = [(JStr ''A'', JStr ''B'', JInt 6)], addr_matrix = []\<rparr>
     (reply_with 300 (JObj [(''message'', JStr ''choices'')]))
   = (Inr [(JStr ''A'', JStr ''B'', JInt 6)],
      \<lparr>watch_address = ''A'', transaction_list = [(JStr ''A'', JStr ''B'', JInt 6)], addr_matrix = []\<rparr>)
   \<and> fst (get_transactions_from_btc_address
     \<lparr>watch_address = ''A'', transaction_list = [(JStr ''A'', JStr ''B'', JInt 6)], addr_matrix = []\<rparr>
     (reply_with 300 (feed_json
        [tx_json [input_json (JStr ''C'') (JInt 3)] [output_json (JStr ''A'') (JInt 2)]])))
   = Inr [(JStr ''A'', JStr ''B'', JInt 6), (JStr ''C'', JStr ''A'', JInt 2)]"
  by (simp add: get_transactions_from_btc_address_def reply_with_def feed_json_def tx_json_def
      input_json_def output_json_def requests_get_def ok_iff response_json_def history_step_def
      from_address_of_def to_address_of_def amount_of_def)

lemma history_step_normalized:
  assumes "normalized_transfer tx = Some t"
  shows "history_step tx = Inr (Some t)"
proof -
  obtain f r a where paths: "json_path tx first_input_path = Some f"
      "json_path tx first_output_addr_path = Some r"
      "json_path tx first_output_value_path = Some a"
      and tr: "truthy f" "truthy r" "truthy a" and t: "t = (f, r, a)"
    using assms
    by (auto simp: normalized_transfer_def split: option.splits if_splits)
  from paths show ?thesis
    unfolding t
    using tr
    by (auto simp: first_input_path_def first_output_addr_path_def first_output_value_path_def
        json_path_Key_iff json_path_Idx_iff history_step_def from_address_of_def
        to_address_of_def amount_of_def contains_str_obj simp del: contains_str.simps)
qed

lemma lacks_key_not_normalized:
  "lacks_key tx ''inputs'' \<or> lacks_key tx ''out'' \<Longrightarrow> normalized_transfer tx = None"
  by (cases tx)
    (auto simp: lacks_key_def normalized_transfer_def first_input_path_def
      first_output_addr_path_def first_output_value_path_def split: option.splits)

lemma history_step_lacks_key:
  "lacks_key tx ''inputs'' \<or> lacks_key tx ''out'' \<Longrightarrow> history_step tx = Inr None"
  by (cases tx)
    (auto simp: lacks_key_def history_step_def contains_str_obj simp del: contains_str.simps)

lemma history_loop_regular:
  "list_all (\<lambda>tx. normalized_transfer tx \<noteq> None \<or> lacks_key tx ''inputs'' \<or> lacks_key tx ''out'') txs
   \<Longrightarrow> history_loop txs acc = (None, acc @ List.map_filter normalized_transfer txs)"
proof (induction txs arbitrary: acc)
  case Nil
  then show ?case by simp
next
  case (Cons tx txs)
  show ?case
  proof (cases "normalized_transfer tx")
    case None
    with Cons.prems have "history_step tx = Inr None"
      by (simp add: history_step_lacks_key)
    with None Cons show ?thesis
      by simp
  next
    case (Some t)
    then have "history_step tx = Inr (Some t)"
      by (rule history_step_normalized)
    with Some Cons show ?thesis
      by simp
  qed
qed

text \<open>
  C8. On a fresh monitor and a successful response, when every transaction of the list
  either has a NormalizedTransfer (its first input's source address and its first
  output's address and value are there and true in Python's sense) or is an object
  without the key \<open>inputs\<close> or without the key \<open>out\<close>, the call returns the
  NormalizedTransfers of the former, in order, and nothing for the latter; so three
  valid transactions give exactly three entries. An entry depends on the three places
  \<open>inputs[0].prev_out.addr\<close>, \<open>out[0].addr\<close> and \<open>out[0].value\<close> only.
\<close>

theorem history_of_regular_transactions:
  assumes "ok r" "body r = Some data"
    and "json_path data [Key ''txs''] = Some (JArr txs)"
    and "list_all (\<lambda>tx. normalized_transfer tx \<noteq> None \<or> lacks_key tx ''inputs'' \<or> lacks_key tx ''out'') txs"
  shows "get_transactions_from_btc_address (new_address_monitor w) (Reply r) =
           (Inr (List.map_filter normalized_transfer txs),
            \<lparr>watch_address = w, transaction_list = List.map_filter normalized_transfer txs,
              addr_matrix = []\<rparr>)
         \<and> length (List.map_filter normalized_transfer txs) =
             length (filter (\<lambda>tx. normalized_transfer tx \<noteq> None) txs)"
proof -
  have "history_loop txs [] = (None, List.map_filter normalized_transfer txs)"
    using history_loop_regular [OF assms(4), of "[]"] by simp
  moreover have "length (List.map_filter normalized_transfer txs) =
      length (filter (\<lambda>tx. normalized_transfer tx \<noteq> None) txs)"
    by (simp add: List.map_filter_def)
  ultimately show ?thesis
    using assms(1-3)
    by (auto simp: get_transactions_from_btc_address_def new_address_monitor_def
        requests_get_def response_json_def json_path_Key_iff contains_str_obj
        simp del: contains_str.simps)
qed

theorem history_of_regular_transactions_witness:
  "get_transactions_from_btc_address (new_address_monitor ''A'')
     (reply_with 200 (feed_json
        [tx_json [input_json (JStr ''A'') (JInt 7), input_json (JStr ''C'') (JInt 2)]
                 [output_json (JStr ''B'') (JInt 6), output_json (JStr ''D'') (JInt 3)],
         JObj [(''out'', JArr [output_json (JStr ''B'') (JInt 6)])],
         tx_json [input_json (JStr ''E'') (JInt 1)] [output_json (JStr ''A'') (JInt 1)],
         JObj [(''inputs'', JArr [input_json (JStr ''A'') (JInt 7)])],
         tx_json [input_json (JStr ''A'') (JInt 9)] [output_json (JStr ''F'') (JInt 8)]]))
   = (Inr [(JStr ''A'', JStr ''B'', JInt 6), (JStr ''E'', JStr ''A'', JInt 1),
           (JStr ''A'', JStr ''F'', JInt 8)],
      \<lparr>watch_address = ''A'',
        transaction_list = [(JStr ''A'', JStr ''B'', JInt 6), (JStr ''E'', JStr ''A'', JInt 1),
           (JStr ''A'', JStr ''F'', JInt 8)],
        addr_matrix = []\<rparr>)"
  using history_of_regular_transactions
    [of "\<lparr>status_code = 200, body = Some (feed_json
        [tx_json [input_json (JStr ''A'') (JInt 7), input_json (JStr ''C'') (JInt 2)]
                 [output_json (JStr ''B'') (JInt 6), output_json (JStr ''D'') (JInt 3)],
         JObj [(''out'', JArr [output_json (JStr ''B'') (JInt 6)])],
         tx_json [input_json (JStr ''E'') (JInt 1)] [output_json (JStr ''A'') (JInt 1)],
         JObj [(''inputs'', JArr [input_json (JStr ''A'') (JInt 7)])],
         tx_json [input_json (JStr ''A'') (JInt 9)] [output_json (JStr ''F'') (JInt 8)]])\<rparr>"
      "feed_json
        [tx_json [input_json (JStr ''A'') (JInt 7), input_json (JStr ''C'') (JInt 2)]
                 [output_json (JStr ''B'') (JInt 6), output_json (JStr ''D'') (JInt 3)],
         JObj [(''out'', JArr [output_json (JStr ''B'') (JInt 6)])],
         tx_json [input_json (JStr ''E'') (JInt 1)] [output_json (JStr ''A'') (JInt 1)],
         JObj [(''inputs'', JArr [input_json (JStr ''A'') (JInt 7)])],
         tx_json [input_json (JStr ''A'') (JInt 9)] [output_json (JStr ''F'') (JInt 8)]]"
      "[tx_json [input_json (JStr ''A'') (JInt 7), input_json (JStr ''C'') (JInt 2)]
                 [output_json (JStr ''B'') (JInt 6), output_json (JStr ''D'') (JInt 3)],
         JObj [(''out'', JArr [output_json (JStr ''B'') (JInt 6)])],
         tx_json [input_json (JStr ''E'') (JInt 1)] [output_json (JStr ''A'') (JInt 1)],
         JObj [(''inputs'', JArr [input_json (JStr ''A'') (JInt 7)])],
         tx_json [input_json (JStr ''A'') (JInt 9)] [output_json (JStr ''F'') (JInt 8)]]"
      "''A''"]
  by (simp add: reply_with_def ok_iff feed_json_def tx_json_def input_json_def output_json_def
      normalized_transfer_def lacks_key_def first_input_path_def first_output_addr_path_def
      first_output_value_path_def)

lemma truthy_present_address: "truthy a \<Longrightarrow> present_address a"
  by (auto simp: present_address_def)

lemma truthy_present_amount: "truthy a \<Longrightarrow> present_amount a"
  by (auto simp: present_amount_def)

lemma history_step_transfer_ok: "history_step tx = Inr (Some t) \<Longrightarrow> transfer_ok t"
  by (auto simp: history_step_def bind_result_Inr_iff transfer_ok_def truthy_present_address
      truthy_present_amount split: if_splits)

lemma history_loop_transfer_ok:
  "list_all transfer_ok acc \<Longrightarrow> list_all transfer_ok (snd (history_loop txs acc))"
proof (induction txs arbitrary: acc)
  case Nil
  then show ?case by simp
next
  case (Cons tx txs)
  then show ?case
    by (auto split: sum.splits option.splits dest: history_step_transfer_ok)
qed

lemma history_loop_result_ok:
  "history_loop txs acc = (e, l) \<Longrightarrow> list_all transfer_ok acc \<Longrightarrow> list_all transfer_ok l"
  using history_loop_transfer_ok [of acc txs] by simp

lemma get_transactions_transfer_ok:
  assumes "list_all transfer_ok (transaction_list self)"
  shows "list_all transfer_ok
           (transaction_list (snd (get_transactions_from_btc_address self reply)))"
  using assms
  by (auto simp: get_transactions_from_btc_address_def
      split: sum.splits bool.splits prod.splits option.splits dest: history_loop_result_ok)

lemma get_transactions_returns_list:
  "get_transactions_from_btc_address self reply = (Inr l, self') \<Longrightarrow> transaction_list self' = l"
  by (auto simp: get_transactions_from_btc_address_def split: sum.splits bool.splits prod.splits option.splits if_splits)

lemma history_calls_transfer_ok:
  "list_all transfer_ok (transaction_list self) \<Longrightarrow>
   list_all transfer_ok (transaction_list (history_calls self replies))"
  unfolding history_calls_def
  by (induction replies arbitrary: self) (simp_all add: get_transactions_transfer_ok)

text \<open>
  C3, as far as it holds. Every NormalizedTransfer in the cumulative list, after any
  sequence of calls of the history method on a fresh monitor, and every entry of a list
  that a call returns, has a sender address and a recipient address that are present and
  not empty and an amount that is present and not zero: the method appends a tuple only
  under \<^verbatim>\<open>if from_address and to_address and amount\<close>.
\<close>

theorem normalized_transfers_present:
  "list_all transfer_ok (transaction_list (history_calls (new_address_monitor w) replies))
   \<and> (\<forall>l. fst (get_transactions_from_btc_address
                 (history_calls (new_address_monitor w) replies) reply) = Inr l
          \<longrightarrow> list_all transfer_ok l)"
proof -
  let ?self = "history_calls (new_address_monitor w) replies"
  have inv: "list_all transfer_ok (transaction_list ?self)"
    by (rule history_calls_transfer_ok) (simp add: new_address_monitor_def)
  have "list_all transfer_ok l"
    if "fst (get_transactions_from_btc_address ?self reply) = Inr l" for l
  proof -
    have "get_transactions_from_btc_address ?self reply =
        (Inr l, snd (get_transactions_from_btc_address ?self reply))"
      using that by (metis prod.collapse)
    then have "transaction_list (snd (get_transactions_from_btc_address ?self reply)) = l"
      using get_transactions_returns_list by fastforce
    with get_transactions_transfer_ok [OF inv, of reply] show ?thesis by simp
  qed
  with inv show ?thesis by blast
qed

theorem normalized_transfers_present_witness:
  "fst (get_transactions_from_btc_address
          (history_calls (new_address_monitor ''A'')
             [reply_with 200 (feed_json
                [tx_json [input_json (JStr ''A'') (JInt 7)] [output_json (JStr ''B'') (JInt 6)],
                 tx_json [input_json (JStr ''A'') (JInt 7)] [output_json (JStr ''B'') (JInt 0)],
                 tx_json [input_json (JStr []) (JInt 7)] [output_json (JStr ''B'') (JInt 6)]])])
          (reply_with 200 (feed_json
             [tx_json [input_json (JStr ''C'') (JInt 3)] [output_json JNull (JInt 2)],
              tx_json [input_json (JStr ''C'') (JInt 3)] [output_json (JStr ''A'') (JInt 2)]])))
     = Inr [(JStr ''A'', JStr ''B'', JInt 6), (JStr ''C'', JStr ''A'', JInt 2)]
   \<and> list_all transfer_ok [(JStr ''A'', JStr ''B'', JInt 6), (JStr ''C'', JStr ''A'', JInt 2)]"
  using normalized_transfers_present
    [of "''A''"
      "[reply_with 200 (feed_json
          [tx_json [input_json (JStr ''A'') (JInt 7)] [output_json (JStr ''B'') (JInt 6)],
           tx_json [input_json (JStr ''A'') (JInt 7)] [output_json (JStr ''B'') (JInt 0)],
           tx_json [input_json (JStr []) (JInt 7)] [output_json (JStr ''B'') (JInt 6)]])]"
      "reply_with 200 (feed_json
         [tx_json [input_json (JStr ''C'') (JInt 3)] [output_json JNull (JInt 2)],
          tx_json [input_json (JStr ''C'') (JInt 3)] [output_json (JStr ''A'') (JInt 2)]])"]
  by (simp add: history_calls_def get_transactions_from_btc_address_def new_address_monitor_def
      reply_with_def feed_json_def tx_json_def input_json_def output_json_def requests_get_def
      ok_iff response_json_def history_step_def from_address_of_def to_address_of_def
      amount_of_def)

text \<open>
  The schema faults that the history method passes over: a transaction that can be read
  contributes its NormalizedTransfer, if it has one, and raises nothing.
\<close>

lemma history_step_tolerated: "tolerated tx \<Longrightarrow> history_step tx = Inr (normalized_transfer tx)"
proof -
  assume tol: "tolerated tx"
  show ?thesis
  proof (cases "lacks_key tx ''inputs'' \<or> lacks_key tx ''out''")
    case True
    then show ?thesis
      by (simp add: history_step_lacks_key lacks_key_not_normalized)
  next
    case False
    with tol have rd: "first_input_readable tx" "first_output_readable tx"
      by (auto simp: tolerated_def)
    then obtain kvs ins outs where tx: "tx = JObj kvs" "map_of kvs ''inputs'' = Some (JArr ins)"
        "map_of kvs ''out'' = Some (JArr outs)"
      by (auto simp: first_input_readable_def first_output_readable_def json_path_Key_iff
          split: option.splits json.splits)
    have from_a: "from_address_of tx =
        Inr (case json_path tx first_input_path of None \<Rightarrow> JNull | Some f \<Rightarrow> f)"
      using rd(1) tx
      by (cases ins)
        (auto simp: first_input_readable_def from_address_of_def first_input_path_def
          json_path_Key_iff split: option.splits)
    have to_a: "to_address_of tx =
        Inr (case json_path tx first_output_addr_path of None \<Rightarrow> JNull | Some f \<Rightarrow> f)"
      using rd(2) tx
      by (cases outs)
        (auto simp: first_output_readable_def to_address_of_def first_output_addr_path_def
          json_path_Key_iff split: option.splits)
    have am: "amount_of tx =
        Inr (case json_path tx first_output_value_path of None \<Rightarrow> JNull | Some f \<Rightarrow> f)"
      using rd(2) tx
      by (cases outs)
        (auto simp: first_output_readable_def amount_of_def first_output_value_path_def
          json_path_Key_iff contains_str_obj simp del: contains_str.simps split: option.splits)
    show ?thesis
      using tx from_a to_a am
      by (auto simp: history_step_def normalized_transfer_def contains_str_obj
          simp del: contains_str.simps split: option.splits)
  qed
qed

lemma history_loop_tolerated:
  "list_all tolerated txs \<Longrightarrow>
   history_loop txs acc = (None, acc @ List.map_filter normalized_transfer txs)"
proof (induction txs arbitrary: acc)
  case Nil
  then show ?case by simp
next
  case (Cons tx txs)
  then show ?case
    by (cases "normalized_transfer tx") (simp_all add: history_step_tolerated)
qed

lemma history_tolerated:
  assumes "ok r" "body r = Some feed" "json_path feed [Key ''txs''] = Some (JArr txs)"
    and "list_all tolerated txs"
  shows "get_transactions_from_btc_address self (Reply r) =
           (Inr (transaction_list self @ List.map_filter normalized_transfer txs),
            self\<lparr>transaction_list :=
              transaction_list self @ List.map_filter normalized_transfer txs\<rparr>)"
  using assms(1-3) history_loop_tolerated [OF assms(4), of "transaction_list self"]
  by (auto simp: get_transactions_from_btc_address_def requests_get_def response_json_def
      json_path_Key_iff contains_str_obj simp del: contains_str.simps)

lemma history_no_txs:
  "ok r \<Longrightarrow> body r = Some feed \<Longrightarrow> lacks_key feed ''txs'' \<Longrightarrow>
   get_transactions_from_btc_address self (Reply r) = (Inr (transaction_list self), self)"
  by (cases feed)
    (simp_all add: get_transactions_from_btc_address_def requests_get_def response_json_def
      lacks_key_def contains_str_obj del: contains_str.simps)

lemma history_network:
  "get_transactions_from_btc_address self NetworkFault = (Inl RequestException, self)"
  by (simp add: get_transactions_from_btc_address_def requests_get_def)

lemma history_not_json:
  "ok r \<Longrightarrow> body r = None \<Longrightarrow>
   get_transactions_from_btc_address self (Reply r) = (Inl ValueError, self)"
  by (simp add: get_transactions_from_btc_address_def requests_get_def response_json_def)

lemma history_missing_prev_out:
  assumes "ok r" "body r = Some feed"
    and "json_path feed [Key ''txs''] = Some (JArr (tx # others))"
    and "json_path tx [Key ''inputs''] = Some (JArr (i # ins))"
    and "json_path tx [Key ''out''] = Some outv"
    and "lacks_key i ''prev_out''"
  shows "get_transactions_from_btc_address self (Reply r) = (Inl KeyError, self)"
proof -
  obtain ikvs where i: "i = JObj ikvs" "map_of ikvs ''prev_out'' = None"
    using assms(6) by (cases i) (auto simp: lacks_key_def)
  have "history_step tx = Inl KeyError"
    using assms(4,5) i
    by (auto simp: history_step_def from_address_of_def json_path_Key_iff contains_str_obj
        simp del: contains_str.simps)
  then show ?thesis
    using assms(1-3)
    by (auto simp: get_transactions_from_btc_address_def requests_get_def response_json_def
        json_path_Key_iff contains_str_obj simp del: contains_str.simps)
qed

section \<open>The block scan\<close>

text \<open>
  C5. A fresh scanner over the one-block range \<open>[n, n]\<close>, whose block holds one
  transaction with the two inputs \<open>(X, a)\<close>, \<open>(Y, b)\<close> and the two outputs
  \<open>(Z, c)\<close>, \<open>(W, d)\<close>, returns exactly the two rows \<open>[X, Z, a]\<close> and \<open>[Y, W, b]\<close>:
  senders and recipients are paired by position and the amounts are those of the
  inputs. When the one transaction of the block has at most one input or at most one
  output, as with one input and two outputs, the test for more than one input and more
  than one output fails and the scan returns no row.
\<close>

theorem mixing_candidate_rows:
  assumes "api n = Reply r" "ok r" "body r = Some block"
    and "json_path block [Key ''tx''] = Some (JArr [tx])"
    and "json_path tx [Key ''inputs''] = Some (JArr [ina, inb])"
    and "json_path tx [Key ''out''] = Some (JArr [outa, outb])"
    and "json_path ina [Key ''prev_out'', Key ''addr''] = Some X"
    and "json_path ina [Key ''prev_out'', Key ''value''] = Some a"
    and "json_path inb [Key ''prev_out'', Key ''addr''] = Some Y"
    and "json_path inb [Key ''prev_out'', Key ''value''] = Some b"
    and "json_path outa [Key ''addr''] = Some Z"
    and "json_path outa [Key ''value''] = Some c"
    and "json_path outb [Key ''addr''] = Some W"
    and "json_path outb [Key ''value''] = Some d"
    and "api' n' = Reply r'" "ok r'" "body r' = Some block'"
    and "json_path block' [Key ''tx''] = Some (JArr [tx'])"
    and "json_path tx' [Key ''inputs''] = Some (JArr ins')"
    and "json_path tx' [Key ''out''] = Some (JArr outs')"
    and "length ins' \<le> 1 \<or> length outs' \<le> 1"
  shows "get_mixed_btc_transactions_from_btc_blocks (new_block_monitor n n) api =
           (Inr [[X, Z, a], [Y, W, b]],
            \<lparr>start_block = n, end_block = n, matrix = [[X, Z, a], [Y, W, b]]\<rparr>)
         \<and> get_mixed_btc_transactions_from_btc_blocks (new_block_monitor n' n') api' =
           (Inr [], \<lparr>start_block = n', end_block = n', matrix = []\<rparr>)"
  using assms
  by (auto simp: get_mixed_btc_transactions_from_btc_blocks_def new_block_monitor_def
      requests_get_def response_json_def mix_step_def json_path_Key_iff upt_rec)

theorem mixing_candidate_rows_witness:
  "get_mixed_btc_transactions_from_btc_blocks (new_block_monitor 100 100)
     (every_block (reply_with 200 (block_json
        [tx_json [input_json (JStr ''X'') (JInt 10), input_json (JStr ''Y'') (JInt 5)]
                 [output_json (JStr ''Z'') (JInt 14), output_json (JStr ''W'') (JInt 1)]])))
   = (Inr [[JStr ''X'', JStr ''Z'', JInt 10], [JStr ''Y'', JStr ''W'', JInt 5]],
      \<lparr>start_block = 100, end_block = 100,
        matrix = [[JStr ''X'', JStr ''Z'', JInt 10], [JStr ''Y'', JStr ''W'', JInt 5]]\<rparr>)
   \<and> get_mixed_btc_transactions_from_btc_blocks (new_block_monitor 100 100)
     (every_block (reply_with 200 (block_json
        [tx_json [input_json (JStr ''X'') (JInt 10)]
                 [output_json (JStr ''Z'') (JInt 9), output_json (JStr ''W'') (JInt 1)]])))
   = (Inr [], \<lparr>start_block = 100, end_block = 100, matrix = []\<rparr>)"
  by (rule mixing_candidate_rows
      [where r = "\<lparr>status_code = 200, body = Some (block_json
          [tx_json [input_json (JStr ''X'') (JInt 10), input_json (JStr ''Y'') (JInt 5)]
                   [output_json (JStr ''Z'') (JInt 14), output_json (JStr ''W'') (JInt 1)]])\<rparr>"
         and block = "block_json
          [tx_json [input_json (JStr ''X'') (JInt 10), input_json (JStr ''Y'') (JInt 5)]
                   [output_json (JStr ''Z'') (JInt 14), output_json (JStr ''W'') (JInt 1)]]"
         and tx = "tx_json [input_json (JStr ''X'') (JInt 10), input_json (JStr ''Y'') (JInt 5)]
                   [output_json (JStr ''Z'') (JInt 14), output_json (JStr ''W'') (JInt 1)]"
         and ina = "input_json (JStr ''X'') (JInt 10)" and inb = "input_json (JStr ''Y'') (JInt 5)"
         and outa = "output_json (JStr ''Z'') (JInt 14)" and outb = "output_json (JStr ''W'') (JInt 1)"
         and c = "JInt 14" and d = "JInt 1"
         and r' = "\<lparr>status_code = 200, body = Some (block_json
          [tx_json [input_json (JStr ''X'') (JInt 10)]
                 [output_json (JStr ''Z'') (JInt 9), output_json (JStr ''W'') (JInt 1)]])\<rparr>"
         and block' = "block_json
          [tx_json [input_json (JStr ''X'') (JInt 10)]
                 [output_json (JStr ''Z'') (JInt 9), output_json (JStr ''W'') (JInt 1)]]"
         and tx' = "tx_json [input_json (JStr ''X'') (JInt 10)]
                 [output_json (JStr ''Z'') (JInt 9), output_json (JStr ''W'') (JInt 1)]"
         and ins' = "[input_json (JStr ''X'') (JInt 10)]"
         and outs' = "[output_json (JStr ''Z'') (JInt 9), output_json (JStr ''W'') (JInt 1)]"])
    (simp_all add: reply_with_def ok_iff block_json_def tx_json_def input_json_def output_json_def
      every_block_def)

text \<open>
  C2. The rows are built by reading the sender list, the recipient list and the amount
  list at the same position, for every position of the sender list. With three inputs
  and two outputs in the one transaction of block 100 there are three senders and two
  recipients: the loop appends two rows to the matrix and then raises \<open>IndexError\<close>
  at position 2, instead of stopping at the shorter list.
\<close>

theorem pairing_raises_on_fewer_recipients:
  "get_mixed_btc_transactions_from_btc_blocks (new_block_monitor 100 100)
     (every_block (reply_with 200 (block_json
        [tx_json [input_json (JStr ''X'') (JInt 10), input_json (JStr ''Y'') (JInt 5),
                  input_json (JStr ''V'') (JInt 3)]
                 [output_json (JStr ''Z'') (JInt 14), output_json (JStr ''W'') (JInt 4)]])))
   = (Inl IndexError,
      \<lparr>start_block = 100, end_block = 100,
        matrix = [[JStr ''X'', JStr ''Z'', JInt 10], [JStr ''Y'', JStr ''W'', JInt 5]]\<rparr>)"
  by (simp add: get_mixed_btc_transactions_from_btc_blocks_def new_block_monitor_def
      reply_with_def block_json_def tx_json_def input_json_def output_json_def
      requests_get_def ok_iff response_json_def mix_step_def upt_rec every_block_def)

text \<open>
  C3 fails for the rows of the block scan, which appends the address and value fields
  of the inputs and outputs as they are: an input of value 0 and an output with the
  empty address give a row with a zero amount and an empty recipient.
\<close>

theorem mix_row_with_zero_amount:
  "get_mixed_btc_transactions_from_btc_blocks (new_block_monitor 100 100)
     (every_block (reply_with 200 (block_json
        [tx_json [input_json (JStr ''X'') (JInt 0), input_json (JStr ''Y'') (JInt 5)]
                 [output_json (JStr []) (JInt 4), output_json (JStr ''W'') (JInt 1)]])))
   = (Inr [[JStr ''X'', JStr '''', JInt 0], [JStr ''Y'', JStr ''W'', JInt 5]],
      \<lparr>start_block = 100, end_block = 100,
        matrix = [[JStr ''X'', JStr '''', JInt 0], [JStr ''Y'', JStr ''W'', JInt 5]]\<rparr>)
   \<and> \<not> row_ok [JStr ''X'', JStr '''', JInt 0]"
  by (simp add: get_mixed_btc_transactions_from_btc_blocks_def new_block_monitor_def
      reply_with_def block_json_def tx_json_def input_json_def output_json_def
      requests_get_def ok_iff response_json_def mix_step_def upt_rec every_block_def row_ok_def
      present_address_def present_amount_def)

section \<open>Subscripts and places\<close>

lemma subscript_key_error: "subscript_key v k = Inl e \<Longrightarrow> e = KeyError \<or> e = TypeError"
  by (cases v) (auto split: option.splits)

lemma subscript_index_error:
  "subscript_index v i = Inl e \<Longrightarrow> e = KeyError \<or> e = IndexError \<or> e = TypeError"
  by (cases v) (auto split: if_splits)

lemma iterate_error: "iterate v = Inl e \<Longrightarrow> e = TypeError"
  by (cases v) auto

lemma contains_str_error: "contains_str k v = Inl e \<Longrightarrow> e = TypeError"
  by (cases v) auto

lemma subscript_key_Inr_iff:
  "subscript_key v k = Inr x \<longleftrightarrow> (\<exists>kvs. v = JObj kvs \<and> map_of kvs k = Some x)"
  by (cases v) (auto split: option.splits)

lemma subscript_key_path: "subscript_key v k = Inr x \<longleftrightarrow> json_path v [Key k] = Some x"
  by (simp add: subscript_key_Inr_iff json_path_Key_iff)

lemma key_step:
  "bind_result (subscript_key v k) f = Inr a \<longleftrightarrow>
     (\<exists>kvs u. v = JObj kvs \<and> map_of kvs k = Some u \<and> f u = Inr a)"
  by (cases v) (auto split: option.splits)

lemma index_key_step:
  "bind_result (subscript_index v i) (\<lambda>u. bind_result (subscript_key u k) f) = Inr a \<longleftrightarrow>
     (\<exists>xs. v = JArr xs \<and> i < length xs \<and> bind_result (subscript_key (xs ! i) k) f = Inr a)"
  by (cases v) (auto split: if_splits)

lemma json_path_Nil_iff: "json_path v [] = Some x \<longleftrightarrow> v = x"
  by simp

section \<open>The unconfirmed feed: outgoing transactions\<close>

lemma first_input_addr_path:
  "first_input_addr t = Inr a \<longleftrightarrow> json_path t first_input_path = Some a"
  unfolding first_input_addr_def first_input_path_def
  by (simp only: key_step index_key_step subscript_key_Inr_iff json_path_Key_iff
      json_path_Idx_iff json_path_Nil_iff simp_thms ex_simps) simp

lemma first_input_addr_error:
  "first_input_addr t = Inl e \<Longrightarrow> e = KeyError \<or> e = IndexError \<or> e = TypeError"
  unfolding first_input_addr_def bind_result_Inl_iff
  by (auto dest: subscript_key_error subscript_index_error)

lemma tx_loop_error:
  "tx_loop w txs = Inl e \<Longrightarrow> e = KeyError \<or> e = IndexError \<or> e = TypeError"
  by (induction txs) (auto split: sum.splits if_splits dest: first_input_addr_error)

lemma tx_loop_first_match:
  "list_all has_first_input_addr pre \<Longrightarrow> spends_from w t \<Longrightarrow>
   tx_loop w (pre @ t # post) = Inr True"
proof (induction pre)
  case Nil
  then show ?case
    by (simp add: spends_from_def first_input_addr_path [symmetric] eq_str_def)
next
  case (Cons p pre)
  then obtain a where "first_input_addr p = Inr a"
    by (auto simp: has_first_input_addr_def first_input_addr_path)
  with Cons show ?case by simp
qed

lemma tx_loop_True_match: "tx_loop w txs = Inr True \<Longrightarrow> list_ex (spends_from w) txs"
  by (induction txs)
    (auto simp: spends_from_def first_input_addr_path [symmetric] eq_str_def
      split: sum.splits if_splits)

lemma tx_loop_strings: "tx_loop w (map JStr ss) \<noteq> Inr True"
  by (induction ss) (auto simp: first_input_addr_def)

subsection \<open>The three \<^verbatim>\<open>try\<close> blocks\<close>

lemma except_matches_simps [simp]:
  "except_matches e [] = False"
  "except_matches e (c # cs) = (is_instance e c \<or> except_matches e cs)"
  by (simp_all add: except_matches_def)

lemma get_checked_cases:
  "(get_checked reply = Inl RequestException \<and> reply = NetworkFault)
   \<or> (\<exists>r. get_checked reply = Inl HTTPError \<and> reply = Reply r \<and> \<not> ok r)
   \<or> (\<exists>r. get_checked reply = Inr r \<and> reply = Reply r \<and> ok r)"
  by (cases reply) (auto simp: get_checked_def requests_get_def ok_def raise_for_status_def)

text \<open>
  What the three \<^verbatim>\<open>try\<close> blocks make of a loop that raises nothing but
  \<open>KeyError\<close>, \<open>IndexError\<close> and \<open>TypeError\<close>.
\<close>

lemma unconfirmed_check_outcome:
  assumes "\<And>txs e. loop txs = Inl e \<Longrightarrow> e = KeyError \<or> e = IndexError \<or> e = TypeError"
  shows "unconfirmed_check loop reply = Inl TypeError
         \<or> (\<exists>b. unconfirmed_check loop reply = Inr (b, None))
         \<or> (\<exists>d. unconfirmed_check loop reply = Inr (False, Some d))"
proof -
  consider "get_checked reply = Inl RequestException" | "get_checked reply = Inl HTTPError"
    | r where "get_checked reply = Inr r"
    using get_checked_cases [of reply] by blast
  then show ?thesis
  proof cases
    case 1
    then show ?thesis by (simp add: unconfirmed_check_def)
  next
    case 2
    then show ?thesis by (simp add: unconfirmed_check_def)
  next
    case (3 r)
    show ?thesis
    proof (cases "body r")
      case None
      with 3 show ?thesis by (simp add: unconfirmed_check_def response_json_def)
    next
      case (Some feed)
      let ?third = "bind_result (subscript_key feed ''txs'') (\<lambda>txs. bind_result (iterate txs) loop)"
      show ?thesis
      proof (cases ?third)
        case (Inl e)
        then have "e = KeyError \<or> e = IndexError \<or> e = TypeError"
          unfolding bind_result_Inl_iff
          using assms by (auto dest: subscript_key_error iterate_error)
        with Inl 3 Some show ?thesis
          by (auto simp: unconfirmed_check_def response_json_def)
      next
        case (Inr b)
        with 3 Some show ?thesis
          by (simp add: unconfirmed_check_def response_json_def)
      qed
    qed
  qed
qed

text \<open>The only way to the answer \<open>True\<close>: the loop found a match in what \<open>txs\<close> yields.\<close>

lemma unconfirmed_check_True:
  assumes "unconfirmed_check loop reply = Inr (True, d)"
  shows "\<exists>r feed v txs. reply = Reply r \<and> body r = Some feed \<and>
           subscript_key feed ''txs'' = Inr v \<and> iterate v = Inr txs \<and> loop txs = Inr True"
proof -
  consider "get_checked reply = Inl RequestException" | "get_checked reply = Inl HTTPError"
    | r where "get_checked reply = Inr r" "reply = Reply r"
    using get_checked_cases [of reply] by blast
  then show ?thesis
  proof cases
    case 1
    with assms show ?thesis by (simp add: unconfirmed_check_def)
  next
    case 2
    with assms show ?thesis by (simp add: unconfirmed_check_def)
  next
    case (3 r)
    with assms obtain feed where feed: "body r = Some feed"
      by (cases "body r") (auto simp: unconfirmed_check_def response_json_def)
    with assms 3 have
      "bind_result (subscript_key feed ''txs'') (\<lambda>txs. bind_result (iterate txs) loop) = Inr True"
      by (auto simp: unconfirmed_check_def response_json_def split: sum.splits if_splits)
    with 3 feed show ?thesis
      unfolding bind_result_Inr_iff by blast
  qed
qed

text \<open>A successful fetch of a feed with a \<open>txs\<close> array runs the loop on the array.\<close>

lemma unconfirmed_check_feed:
  assumes "ok r" "body r = Some feed" "json_path feed [Key ''txs''] = Some (JArr txs)"
  shows "unconfirmed_check loop (Reply r) =
           (case loop txs of
              Inl err \<Rightarrow> if except_matches err [KeyError, IndexError]
                         then Inr (False, Some (FormatFailed err)) else Inl err
            | Inr b \<Rightarrow> Inr (b, None))"
proof -
  have "get_checked (Reply r) = Inr r"
    using assms(1) by (auto simp: get_checked_def requests_get_def ok_def raise_for_status_def)
  moreover have "subscript_key feed ''txs'' = Inr (JArr txs)"
    using assms(3) by (simp add: subscript_key_path)
  ultimately show ?thesis
    using assms(2) by (simp add: unconfirmed_check_def response_json_def)
qed

subsection \<open>Detection of a spending transaction\<close>

lemma iterate_strings_or_array:
  "iterate v = Inr txs \<Longrightarrow> (\<exists>ss. txs = map JStr ss) \<or> v = JArr txs"
proof (cases v)
  case (JObj kvs)
  assume "iterate v = Inr txs"
  with JObj have "txs = map JStr (map fst kvs)" by auto
  then show ?thesis by blast
next
  case (JStr s)
  assume "iterate v = Inr txs"
  with JStr have "txs = map JStr (map (\<lambda>c. [c]) s)" by auto
  then show ?thesis by blast
qed auto

lemma outgoing_True_match:
  assumes "is_tx_transaction_from_btc_address self reply = Inr (True, d)"
  shows "list_ex (spends_from (watch_address self)) (feed_txs reply)"
proof -
  obtain r feed v txs where *: "reply = Reply r" "body r = Some feed"
      "subscript_key feed ''txs'' = Inr v" "iterate v = Inr txs"
      "tx_loop (watch_address self) txs = Inr True"
    using unconfirmed_check_True [OF assms [unfolded is_tx_transaction_from_btc_address_def]]
    by blast
  from *(4,5) have "v = JArr txs"
    using iterate_strings_or_array [of v txs] tx_loop_strings by auto
  with * have "feed_txs reply = txs"
    by (simp add: feed_txs_def subscript_key_path)
  with *(5) show ?thesis
    by (simp add: tx_loop_True_match)
qed

text \<open>
  C6, as far as it holds. On a successful fetch of a feed whose \<open>txs\<close> array holds a
  transaction \<open>t\<close> with first input address equal to the watched address, the method
  returns true when every transaction before \<open>t\<close> has a first input address to read
  (\<open>inputs[0].prev_out.addr\<close> is there); what follows \<open>t\<close> in the array is never
  looked at. And for every reply whose feed holds no transaction with first input
  address equal to the watched address, the method does not return true: it returns
  false, or a \<open>TypeError\<close> leaves it.
\<close>

theorem outgoing_detection:
  "(ok r \<and> body r = Some feed \<and> json_path feed [Key ''txs''] = Some (JArr (pre @ t # post))
      \<and> list_all has_first_input_addr pre \<and> spends_from (watch_address self) t
    \<longrightarrow> is_tx_transaction_from_btc_address self (Reply r) = Inr (True, None))
   \<and> (\<not> list_ex (spends_from (watch_address self)) (feed_txs reply)
    \<longrightarrow> is_tx_transaction_from_btc_address self reply = Inl TypeError
        \<or> (\<exists>d. is_tx_transaction_from_btc_address self reply = Inr (False, d)))"
proof (intro conjI impI)
  assume "ok r \<and> body r = Some feed \<and> json_path feed [Key ''txs''] = Some (JArr (pre @ t # post))
      \<and> list_all has_first_input_addr pre \<and> spends_from (watch_address self) t"
  then show "is_tx_transaction_from_btc_address self (Reply r) = Inr (True, None)"
    by (simp add: is_tx_transaction_from_btc_address_def unconfirmed_check_feed
        tx_loop_first_match)
next
  assume none: "\<not> list_ex (spends_from (watch_address self)) (feed_txs reply)"
  have "is_tx_transaction_from_btc_address self reply = Inl TypeError
      \<or> (\<exists>b. is_tx_transaction_from_btc_address self reply = Inr (b, None))
      \<or> (\<exists>d. is_tx_transaction_from_btc_address self reply = Inr (False, Some d))"
    unfolding is_tx_transaction_from_btc_address_def
    by (rule unconfirmed_check_outcome) (rule tx_loop_error)
  moreover have "is_tx_transaction_from_btc_address self reply \<noteq> Inr (True, None)"
    using outgoing_True_match none by blast
  ultimately show "is_tx_transaction_from_btc_address self reply = Inl TypeError
      \<or> (\<exists>d. is_tx_transaction_from_btc_address self reply = Inr (False, d))"
    by (metis (full_types))
qed

theorem outgoing_detection_witness:
  "is_tx_transaction_from_btc_address (new_address_monitor ''W'')
     (reply_with 200 (feed_json
        [tx_json [input_json (JStr ''A'') (JInt 7)] [], tx_json [input_json (JStr ''W'') (JInt 3)] [],
         JNull]))
     = Inr (True, None)
   \<and> is_tx_transaction_from_btc_address (new_address_monitor ''W'')
     (reply_with 200 (feed_json [tx_json [input_json (JStr ''A'') (JInt 7)] []]))
     = Inr (False, None)"
  using outgoing_detection
    [of "\<lparr>status_code = 200, body = Some (feed_json
           [tx_json [input_json (JStr ''A'') (JInt 7)] [],
            tx_json [input_json (JStr ''W'') (JInt 3)] [], JNull])\<rparr>"
        "feed_json [tx_json [input_json (JStr ''A'') (JInt 7)] [],
            tx_json [input_json (JStr ''W'') (JInt 3)] [], JNull]"
        "[tx_json [input_json (JStr ''A'') (JInt 7)] []]"
        "tx_json [input_json (JStr ''W'') (JInt 3)] []"
        "[JNull]"
        "new_address_monitor ''W''"
        "reply_with 200 (feed_json [tx_json [input_json (JStr ''A'') (JInt 7)] []])"]
  by (simp add: reply_with_def feed_json_def tx_json_def input_json_def ok_iff
      new_address_monitor_def has_first_input_addr_def spends_from_def first_input_path_def
      feed_txs_def is_tx_transaction_from_btc_address_def unconfirmed_check_def get_checked_def
      requests_get_def raise_for_status_def response_json_def first_input_addr_def eq_str_def)

text \<open>
  C6 fails when a transaction before the matching one has no first input address: no
  input at all (\<open>IndexError\<close>) or a \<open>prev_out\<close> without \<open>addr\<close> (\<open>KeyError\<close>).
  The \<^verbatim>\<open>except\<close> clause around the loop then returns false although a later
  transaction spends from the watched address. And a feed without any match whose
  transaction is not an object raises \<open>TypeError\<close> instead of returning false.
\<close>

theorem outgoing_missed_after_unreadable_input:
  "is_tx_transaction_from_btc_address (new_address_monitor ''W'')
     (reply_with 200 (feed_json
        [tx_json [] [], tx_json [input_json (JStr ''W'') (JInt 3)] []]))
     = Inr (False, Some (FormatFailed IndexError))
   \<and> is_tx_transaction_from_btc_address (new_address_monitor ''W'')
     (reply_with 200 (feed_json
        [tx_json [JObj [(''prev_out'', JObj [(''value'', JInt 7)])]] [],
         tx_json [input_json (JStr ''W'') (JInt 3)] []]))
     = Inr (False, Some (FormatFailed KeyError))
   \<and> is_tx_transaction_from_btc_address (new_address_monitor ''W'')
     (reply_with 200 (feed_json [JInt 5]))
     = Inl TypeError"
  by (simp add: reply_with_def feed_json_def tx_json_def input_json_def
      new_address_monitor_def is_tx_transaction_from_btc_address_def unconfirmed_check_def
      get_checked_def requests_get_def raise_for_status_def response_json_def
      first_input_addr_def eq_str_def)

subsection \<open>The faults that the \<^verbatim>\<open>try\<close> blocks catch\<close>

lemma unconfirmed_check_network:
  "unconfirmed_check loop NetworkFault = Inr (False, Some (RetrieveFailed RequestException))"
  by (simp add: unconfirmed_check_def get_checked_def requests_get_def)

lemma unconfirmed_check_status:
  "\<not> ok r \<Longrightarrow> unconfirmed_check loop (Reply r) = Inr (False, Some (RetrieveFailed HTTPError))"
  by (simp add: unconfirmed_check_def get_checked_def requests_get_def ok_iff
      raise_for_status_def)

lemma unconfirmed_check_not_json:
  "ok r \<Longrightarrow> body r = None \<Longrightarrow>
   unconfirmed_check loop (Reply r) = Inr (False, Some (JsonFailed ValueError))"
  by (simp add: unconfirmed_check_def get_checked_def requests_get_def ok_iff
      raise_for_status_def response_json_def)

lemma unconfirmed_check_no_txs:
  "ok r \<Longrightarrow> body r = Some feed \<Longrightarrow> lacks_key feed ''txs'' \<Longrightarrow>
   unconfirmed_check loop (Reply r) = Inr (False, Some (FormatFailed KeyError))"
  by (cases feed)
    (simp_all add: unconfirmed_check_def get_checked_def requests_get_def ok_iff
      raise_for_status_def response_json_def lacks_key_def)

section \<open>The unconfirmed feed: incoming transactions\<close>

lemma output_to_obj: "output_to w (JObj kvs) \<longleftrightarrow> map_of kvs ''addr'' = Some (JStr w)"
  by (auto simp: output_to_def split: option.splits)

lemma out_loop_object_step:
  "out_loop w (JObj kvs # rest) =
     (if output_to w (JObj kvs) then Inr True else out_loop w rest)"
  by (cases "map_of kvs ''addr''")
    (auto simp: output_to_obj contains_str_obj eq_str_def simp del: contains_str.simps)

lemma out_loop_objects:
  "list_all is_object outs \<Longrightarrow> out_loop w outs = Inr (list_ex (output_to w) outs)"
proof (induction outs)
  case Nil
  then show ?case by simp
next
  case (Cons p outs)
  then obtain kvs where "p = JObj kvs"
    by (cases p) (auto simp: is_object_def)
  with Cons show ?case
    by (simp add: out_loop_object_step del: out_loop.simps)
qed

lemma out_loop_first_match:
  "list_all is_object opre \<Longrightarrow> output_to w p \<Longrightarrow> out_loop w (opre @ p # opost) = Inr True"
proof (induction opre)
  case Nil
  then obtain kvs where "p = JObj kvs"
    by (cases p) (auto simp: output_to_def)
  with Nil show ?case
    by (simp add: out_loop_object_step del: out_loop.simps)
next
  case (Cons q opre)
  then obtain kvs where "q = JObj kvs"
    by (cases q) (auto simp: is_object_def)
  with Cons show ?case
    by (simp add: out_loop_object_step del: out_loop.simps)
qed


lemma out_loop_error: "out_loop w outs = Inl e \<Longrightarrow> e = KeyError \<or> e = TypeError"
  by (induction outs)
    (auto split: sum.splits bool.splits if_splits dest: contains_str_error subscript_key_error)

lemma rx_loop_error:
  "rx_loop w txs = Inl e \<Longrightarrow> e = KeyError \<or> e = IndexError \<or> e = TypeError"
proof (induction txs)
  case Nil
  then show ?case by simp
next
  case (Cons t txs)
  show ?case
  proof (cases "bind_result (subscript_key t ''out'') (\<lambda>out. bind_result (iterate out) (out_loop w))")
    case (Inl e')
    then have "e' = KeyError \<or> e' = TypeError"
      unfolding bind_result_Inl_iff
      by (auto dest: subscript_key_error iterate_error out_loop_error)
    with Inl Cons.prems show ?thesis by auto
  next
    case (Inr b)
    with Cons show ?thesis by (cases b) simp_all
  qed
qed

lemma rx_step_object_outputs:
  assumes "has_object_outputs t"
  shows "bind_result (subscript_key t ''out'') (\<lambda>out. bind_result (iterate out) (out_loop w)) =
           Inr (pays_to w t)"
proof -
  obtain outs where "json_path t [Key ''out''] = Some (JArr outs)" "list_all is_object outs"
    using assms
    by (auto simp: has_object_outputs_def split: option.splits json.splits)
  moreover from this have "subscript_key t ''out'' = Inr (JArr outs)"
    by (simp add: subscript_key_path)
  ultimately show ?thesis
    by (simp add: out_loop_objects pays_to_def)
qed


lemma rx_loop_first_match:
  assumes "json_path t [Key ''out''] = Some (JArr (opre @ p # opost))"
    and "list_all is_object opre" "output_to w p"
  shows "list_all has_object_outputs pre \<Longrightarrow> rx_loop w (pre @ t # post) = Inr True"
proof (induction pre)
  case Nil
  from assms show ?case
    by (simp add: subscript_key_path [symmetric] out_loop_first_match)
next
  case (Cons q pre)
  then show ?case by (auto simp: rx_step_object_outputs split: bool.splits)
qed


text \<open>
  C7, as far as it holds. On a successful fetch of a feed whose \<open>txs\<close> array holds a
  transaction \<open>t\<close> with an output \<open>p\<close>, at any position of its \<open>out\<close> array, whose
  address field equals the watched address, the method returns true when every
  transaction before \<open>t\<close> is an object with an \<open>out\<close> array of objects and every
  output before \<open>p\<close> is an object. The outputs after \<open>p\<close> and the transactions after
  \<open>t\<close> are never looked at.
\<close>

theorem incoming_detection:
  assumes "ok r" "body r = Some feed"
    and "json_path feed [Key ''txs''] = Some (JArr (pre @ t # post))"
    and "list_all has_object_outputs pre"
    and "json_path t [Key ''out''] = Some (JArr (opre @ p # opost))"
    and "list_all is_object opre"
    and "output_to (watch_address self) p"
  shows "is_rx_transaction_to_btc_address self (Reply r) = Inr (True, None)"
  using assms
  by (simp add: is_rx_transaction_to_btc_address_def unconfirmed_check_feed
      rx_loop_first_match)

theorem incoming_detection_witness:
  "is_rx_transaction_to_btc_address (new_address_monitor ''W'')
     (reply_with 200 (feed_json
        [tx_json [] [output_json (JStr ''A'') (JInt 7)],
         tx_json [] [output_json (JStr ''B'') (JInt 1), output_json (JStr ''W'') (JInt 3), JNull],
         JNull]))
     = Inr (True, None)"
  using incoming_detection
    [of "\<lparr>status_code = 200, body = Some (feed_json
           [tx_json [] [output_json (JStr ''A'') (JInt 7)],
            tx_json [] [output_json (JStr ''B'') (JInt 1), output_json (JStr ''W'') (JInt 3), JNull],
            JNull])\<rparr>"
        "feed_json
           [tx_json [] [output_json (JStr ''A'') (JInt 7)],
            tx_json [] [output_json (JStr ''B'') (JInt 1), output_json (JStr ''W'') (JInt 3), JNull],
            JNull]"
        "[tx_json [] [output_json (JStr ''A'') (JInt 7)]]"
        "tx_json [] [output_json (JStr ''B'') (JInt 1), output_json (JStr ''W'') (JInt 3), JNull]"
        "[JNull]"
        "[output_json (JStr ''B'') (JInt 1)]"
        "output_json (JStr ''W'') (JInt 3)"
        "[JNull]"
        "new_address_monitor ''W''"]
  by (simp add: reply_with_def feed_json_def tx_json_def output_json_def ok_iff
      new_address_monitor_def has_object_outputs_def is_object_def output_to_def)

text \<open>
  C7 fails when a transaction before the matching one has no \<open>out\<close> field: the
  \<open>KeyError\<close> makes the method return false although a later transaction pays to the
  watched address.
\<close>

theorem incoming_missed_after_transaction_without_out:
  "is_rx_transaction_to_btc_address (new_address_monitor ''W'')
     (reply_with 200 (feed_json
        [JObj [(''inputs'', JArr [])], tx_json [] [output_json (JStr ''W'') (JInt 3)]]))
     = Inr (False, Some (FormatFailed KeyError))"
  by (simp add: reply_with_def feed_json_def tx_json_def output_json_def
      new_address_monitor_def is_rx_transaction_to_btc_address_def unconfirmed_check_def
      get_checked_def requests_get_def raise_for_status_def response_json_def eq_str_def)



section \<open>Faults at the boundary\<close>

lemma unconfirmed_check_format:
  assumes "ok r" "body r = Some feed" "e = KeyError \<or> e = IndexError"
    and "feed_scan loop feed = Inl e"
  shows "unconfirmed_check loop (Reply r) = Inr (False, Some (FormatFailed e))"
proof -
  have "get_checked (Reply r) = Inr r"
    using assms(1) by (auto simp: get_checked_def requests_get_def ok_def raise_for_status_def)
  with assms(2-4) show ?thesis
    by (auto simp: unconfirmed_check_def response_json_def feed_scan_def)
qed

lemma block_skip:
  "api block_num = Reply r \<Longrightarrow> \<not> ok r \<Longrightarrow>
   block_loop api (block_num # rest) ls = block_loop api rest ls"
  by (simp add: requests_get_def)

lemma block_network:
  "api block_num = NetworkFault \<Longrightarrow> block_loop api (block_num # rest) ls = Inl RequestException"
  by (simp add: requests_get_def)

lemma block_not_json:
  "api block_num = Reply r \<Longrightarrow> ok r \<Longrightarrow> body r = None \<Longrightarrow>
   block_loop api (block_num # rest) ls = Inl ValueError"
  by (simp add: requests_get_def response_json_def)

lemma block_no_tx:
  "api block_num = Reply r \<Longrightarrow> ok r \<Longrightarrow> body r = Some block \<Longrightarrow> lacks_key block ''tx'' \<Longrightarrow>
   block_loop api (block_num # rest) ls = Inl KeyError"
  by (cases block) (simp_all add: requests_get_def response_json_def lacks_key_def)

lemma scan_escape:
  "block_loop api [start_block scanner .. end_block scanner]
     \<lparr>sender_addresses = [], recipient_addresses = [], amounts = []\<rparr> = Inl e \<Longrightarrow>
   get_mixed_btc_transactions_from_btc_blocks scanner api = (Inl e, scanner)"
  by (simp add: get_mixed_btc_transactions_from_btc_blocks_def)

text \<open>
  C9, as far as it holds. When the fetch of the unconfirmed feed comes back with a
  status from 400 to 599, or with a body that is not valid JSON, or with a body that is
  a JSON object without the key \<open>txs\<close>, both boolean methods print a message and
  return false; nothing is raised.
\<close>

theorem malformed_feed_gives_false:
  assumes "(400 \<le> status_code r \<and> status_code r < 600) \<or> body r = None
           \<or> (\<exists>feed. body r = Some feed \<and> lacks_key feed ''txs'')"
  shows "(\<exists>d. is_tx_transaction_from_btc_address self (Reply r) = Inr (False, Some d))
         \<and> (\<exists>d. is_rx_transaction_to_btc_address self (Reply r) = Inr (False, Some d))"
proof -
  have "\<exists>d. unconfirmed_check loop (Reply r) = Inr (False, Some d)" for loop
  proof (cases "ok r")
    case False
    then show ?thesis by (simp add: unconfirmed_check_status)
  next
    case True
    with assms consider "body r = None" | feed where "body r = Some feed" "lacks_key feed ''txs''"
      by (auto simp: ok_iff)
    then show ?thesis
    proof cases
      case 1
      with True show ?thesis by (simp add: unconfirmed_check_not_json)
    next
      case 2
      with True show ?thesis by (simp add: unconfirmed_check_no_txs)
    qed
  qed
  then show ?thesis
    by (simp add: is_tx_transaction_from_btc_address_def is_rx_transaction_to_btc_address_def)
qed

theorem malformed_feed_gives_false_witness:
  "is_tx_transaction_from_btc_address (new_address_monitor ''W'')
       (Reply \<lparr>status_code = 503, body = None\<rparr>) = Inr (False, Some (RetrieveFailed HTTPError))
   \<and> is_rx_transaction_to_btc_address (new_address_monitor ''W'')
       (Reply \<lparr>status_code = 200, body = None\<rparr>) = Inr (False, Some (JsonFailed ValueError))
   \<and> is_rx_transaction_to_btc_address (new_address_monitor ''W'')
       (reply_with 200 (JObj [(''error'', JStr ''busy'')]))
     = Inr (False, Some (FormatFailed KeyError))"
  using malformed_feed_gives_false [of "\<lparr>status_code = 503, body = None\<rparr>" "new_address_monitor ''W''"]
    malformed_feed_gives_false [of "\<lparr>status_code = 200, body = None\<rparr>" "new_address_monitor ''W''"]
    malformed_feed_gives_false
      [of "\<lparr>status_code = 200, body = Some (JObj [(''error'', JStr ''busy'')])\<rparr>"
          "new_address_monitor ''W''"]
  by (simp add: reply_with_def lacks_key_def is_tx_transaction_from_btc_address_def
      is_rx_transaction_to_btc_address_def unconfirmed_check_def get_checked_def
      requests_get_def raise_for_status_def response_json_def)

text \<open>
  C9 fails for a status outside 200 to 299 that \<^verbatim>\<open>raise_for_status()\<close> lets pass, such
  as 300: the body is read and a match answers true. It fails also for a body that is
  valid JSON but not an object, such as the empty array: the subscript \<^verbatim>\<open>['txs']\<close>
  raises \<open>TypeError\<close>, which no \<^verbatim>\<open>except\<close> clause catches.
\<close>

theorem unhandled_feed_shapes:
  "is_tx_transaction_from_btc_address (new_address_monitor ''W'')
     (reply_with 300 (feed_json [tx_json [input_json (JStr ''W'') (JInt 3)] []]))
     = Inr (True, None)
   \<and> is_rx_transaction_to_btc_address (new_address_monitor ''W'')
     (reply_with 300 (feed_json [tx_json [] [output_json (JStr ''W'') (JInt 3)]]))
     = Inr (True, None)
   \<and> is_tx_transaction_from_btc_address (new_address_monitor ''W'') (reply_with 200 (JArr []))
     = Inl TypeError
   \<and> is_rx_transaction_to_btc_address (new_address_monitor ''W'') (reply_with 200 (JArr []))
     = Inl TypeError"
  by (simp add: reply_with_def feed_json_def tx_json_def input_json_def output_json_def
      new_address_monitor_def is_tx_transaction_from_btc_address_def
      is_rx_transaction_to_btc_address_def unconfirmed_check_def get_checked_def
      requests_get_def raise_for_status_def response_json_def first_input_addr_def eq_str_def)

text \<open>
  C1, as far as it holds. In the two boolean methods each fault is caught where it
  arises and turned into false with a message: a failed connection, a status from 400
  to 599, a body that is not JSON, and a \<open>KeyError\<close> or \<open>IndexError\<close> raised by the
  body of the third \<^verbatim>\<open>try\<close> block (an absent key or index). No exception but a
  \<open>TypeError\<close> leaves them, and a call that prints a message returns false. In the
  history method a response with a status from 400 to 599 gives the empty list; a body
  without the key \<open>txs\<close> gives the list as it was; a transaction without the key
  \<open>inputs\<close> or \<open>out\<close> is passed over without an entry; and so is one with an empty
  \<open>inputs\<close> or \<open>out\<close> array or with a first output without \<open>value\<close>, when what
  else is read of it is there (each array is empty or its first element has its
  address). A failed connection, a
  body that is not JSON and a first input without \<open>prev_out\<close> are raised to the
  caller. In the block scan a block with a status from 400 to 599 is skipped and the
  loop goes on with the next one; a failed connection, a body that is not JSON and a
  block without the key \<open>tx\<close> stop the loop with the exception, which the method
  raises to the caller.
\<close>

theorem fault_handling:
  "is_tx_transaction_from_btc_address self NetworkFault =
       Inr (False, Some (RetrieveFailed RequestException))
   \<and> is_rx_transaction_to_btc_address self NetworkFault =
       Inr (False, Some (RetrieveFailed RequestException))
   \<and> (\<not> ok r \<longrightarrow>
        is_tx_transaction_from_btc_address self (Reply r) =
          Inr (False, Some (RetrieveFailed HTTPError)))
   \<and> (\<not> ok r \<longrightarrow>
        is_rx_transaction_to_btc_address self (Reply r) =
          Inr (False, Some (RetrieveFailed HTTPError)))
   \<and> (ok r \<and> body r = None \<longrightarrow>
        is_tx_transaction_from_btc_address self (Reply r) =
          Inr (False, Some (JsonFailed ValueError)))
   \<and> (ok r \<and> body r = None \<longrightarrow>
        is_rx_transaction_to_btc_address self (Reply r) =
          Inr (False, Some (JsonFailed ValueError)))
   \<and> (ok r \<and> body r = Some feed \<and> (e = KeyError \<or> e = IndexError)
        \<and> feed_scan (tx_loop (watch_address self)) feed = Inl e \<longrightarrow>
        is_tx_transaction_from_btc_address self (Reply r) = Inr (False, Some (FormatFailed e)))
   \<and> (ok r \<and> body r = Some feed \<and> (e = KeyError \<or> e = IndexError)
        \<and> feed_scan (rx_loop (watch_address self)) feed = Inl e \<longrightarrow>
        is_rx_transaction_to_btc_address self (Reply r) = Inr (False, Some (FormatFailed e)))
   \<and> (is_tx_transaction_from_btc_address self reply = Inl TypeError
        \<or> (\<exists>b. is_tx_transaction_from_btc_address self reply = Inr (b, None))
        \<or> (\<exists>d. is_tx_transaction_from_btc_address self reply = Inr (False, Some d)))
   \<and> (is_rx_transaction_to_btc_address self reply = Inl TypeError
        \<or> (\<exists>b. is_rx_transaction_to_btc_address self reply = Inr (b, None))
        \<or> (\<exists>d. is_rx_transaction_to_btc_address self reply = Inr (False, Some d)))
   \<and> (\<not> ok r \<longrightarrow>
        get_transactions_from_btc_address self (Reply r) =
          (Inr [], self\<lparr>transaction_list := []\<rparr>))
   \<and> (ok r \<and> body r = Some feed \<and> lacks_key feed ''txs'' \<longrightarrow>
        get_transactions_from_btc_address self (Reply r) = (Inr (transaction_list self), self))
   \<and> (ok r \<and> body r = Some feed \<and> json_path feed [Key ''txs''] = Some (JArr txs)
        \<and> list_all tolerated txs \<longrightarrow>
        get_transactions_from_btc_address self (Reply r) =
          (Inr (transaction_list self @ List.map_filter normalized_transfer txs),
           self\<lparr>transaction_list :=
             transaction_list self @ List.map_filter normalized_transfer txs\<rparr>))
   \<and> get_transactions_from_btc_address self NetworkFault = (Inl RequestException, self)
   \<and> (ok r \<and> body r = None \<longrightarrow>
        get_transactions_from_btc_address self (Reply r) = (Inl ValueError, self))
   \<and> (ok r \<and> body r = Some feed \<and> json_path feed [Key ''txs''] = Some (JArr (tx # others))
        \<and> json_path tx [Key ''inputs''] = Some (JArr (i # ins))
        \<and> json_path tx [Key ''out''] = Some outv \<and> lacks_key i ''prev_out'' \<longrightarrow>
        get_transactions_from_btc_address self (Reply r) = (Inl KeyError, self))
   \<and> (api block_num = Reply r \<and> \<not> ok r \<longrightarrow>
        block_loop api (block_num # rest) ls = block_loop api rest ls)
   \<and> (api block_num = NetworkFault \<longrightarrow>
        block_loop api (block_num # rest) ls = Inl RequestException)
   \<and> (api block_num = Reply r \<and> ok r \<and> body r = None \<longrightarrow>
        block_loop api (block_num # rest) ls = Inl ValueError)
   \<and> (api block_num = Reply r \<and> ok r \<and> body r = Some feed \<and> lacks_key feed ''tx'' \<longrightarrow>
        block_loop api (block_num # rest) ls = Inl KeyError)
   \<and> (block_loop api [start_block scanner .. end_block scanner]
          \<lparr>sender_addresses = [], recipient_addresses = [], amounts = []\<rparr> = Inl e \<longrightarrow>
        get_mixed_btc_transactions_from_btc_blocks scanner api = (Inl e, scanner))"
proof -
  have tx: "is_tx_transaction_from_btc_address self reply = Inl TypeError
        \<or> (\<exists>b. is_tx_transaction_from_btc_address self reply = Inr (b, None))
        \<or> (\<exists>d. is_tx_transaction_from_btc_address self reply = Inr (False, Some d))"
    unfolding is_tx_transaction_from_btc_address_def
    by (rule unconfirmed_check_outcome) (rule tx_loop_error)
  have rx: "is_rx_transaction_to_btc_address self reply = Inl TypeError
        \<or> (\<exists>b. is_rx_transaction_to_btc_address self reply = Inr (b, None))
        \<or> (\<exists>d. is_rx_transaction_to_btc_address self reply = Inr (False, Some d))"
    unfolding is_rx_transaction_to_btc_address_def
    by (rule unconfirmed_check_outcome) (rule rx_loop_error)
  have bool: "unconfirmed_check loop NetworkFault =
        Inr (False, Some (RetrieveFailed RequestException))"
      "\<not> ok r \<longrightarrow> unconfirmed_check loop (Reply r) =
        Inr (False, Some (RetrieveFailed HTTPError))"
      "ok r \<and> body r = None \<longrightarrow> unconfirmed_check loop (Reply r) =
        Inr (False, Some (JsonFailed ValueError))"
      "ok r \<and> body r = Some feed \<and> (e = KeyError \<or> e = IndexError)
        \<and> feed_scan loop feed = Inl e \<longrightarrow>
        unconfirmed_check loop (Reply r) = Inr (False, Some (FormatFailed e))" for loop
    by (simp_all add: unconfirmed_check_network unconfirmed_check_status
        unconfirmed_check_not_json unconfirmed_check_format)
  have hist: "\<not> ok r \<longrightarrow> get_transactions_from_btc_address self (Reply r) =
          (Inr [], self\<lparr>transaction_list := []\<rparr>)"
      "ok r \<and> body r = Some feed \<and> lacks_key feed ''txs'' \<longrightarrow>
        get_transactions_from_btc_address self (Reply r) = (Inr (transaction_list self), self)"
      "ok r \<and> body r = Some feed \<and> json_path feed [Key ''txs''] = Some (JArr txs)
        \<and> list_all tolerated txs \<longrightarrow>
        get_transactions_from_btc_address self (Reply r) =
          (Inr (transaction_list self @ List.map_filter normalized_transfer txs),
           self\<lparr>transaction_list :=
             transaction_list self @ List.map_filter normalized_transfer txs\<rparr>)"
      "get_transactions_from_btc_address self NetworkFault = (Inl RequestException, self)"
      "ok r \<and> body r = None \<longrightarrow>
        get_transactions_from_btc_address self (Reply r) = (Inl ValueError, self)"
      "ok r \<and> body r = Some feed \<and> json_path feed [Key ''txs''] = Some (JArr (tx # others))
        \<and> json_path tx [Key ''inputs''] = Some (JArr (i # ins))
        \<and> json_path tx [Key ''out''] = Some outv \<and> lacks_key i ''prev_out'' \<longrightarrow>
        get_transactions_from_btc_address self (Reply r) = (Inl KeyError, self)"
    using history_tolerated [of r feed txs self] history_no_txs [of r feed self]
      history_not_json [of r self] history_missing_prev_out [of r feed tx others i ins outv self]
    by (simp_all add: history_network get_transactions_from_btc_address_def requests_get_def)
  have scan: "api block_num = Reply r \<and> \<not> ok r \<longrightarrow>
        block_loop api (block_num # rest) ls = block_loop api rest ls"
      "api block_num = NetworkFault \<longrightarrow>
        block_loop api (block_num # rest) ls = Inl RequestException"
      "api block_num = Reply r \<and> ok r \<and> body r = None \<longrightarrow>
        block_loop api (block_num # rest) ls = Inl ValueError"
      "api block_num = Reply r \<and> ok r \<and> body r = Some feed \<and> lacks_key feed ''tx'' \<longrightarrow>
        block_loop api (block_num # rest) ls = Inl KeyError"
      "block_loop api [start_block scanner .. end_block scanner]
          \<lparr>sender_addresses = [], recipient_addresses = [], amounts = []\<rparr> = Inl e \<longrightarrow>
        get_mixed_btc_transactions_from_btc_blocks scanner api = (Inl e, scanner)"
    using block_skip [of api block_num r rest ls] block_network [of api block_num rest ls]
      block_not_json [of api block_num r rest ls] block_no_tx [of api block_num r feed rest ls]
      scan_escape [of api scanner e]
    by blast+
  show ?thesis
    unfolding is_tx_transaction_from_btc_address_def is_rx_transaction_to_btc_address_def
    using tx [unfolded is_tx_transaction_from_btc_address_def]
      rx [unfolded is_rx_transaction_to_btc_address_def]
      bool [of "tx_loop (watch_address self)"] bool [of "rx_loop (watch_address self)"]
      hist scan
    by (intro conjI) assumption+
qed

theorem fault_handling_witness:
  "is_tx_transaction_from_btc_address (new_address_monitor ''W'') (Reply \<lparr>status_code = 404, body = None\<rparr>)
     = Inr (False, Some (RetrieveFailed HTTPError))
   \<and> is_rx_transaction_to_btc_address (new_address_monitor ''W'') (Reply \<lparr>status_code = 200, body = None\<rparr>)
     = Inr (False, Some (JsonFailed ValueError))
   \<and> is_tx_transaction_from_btc_address (new_address_monitor ''W'') (Reply \<lparr>status_code = 200, body = Some (feed_json [JObj [(''hash'', JStr ''00'')], tx_json [] [], tx_json [input_json (JStr ''A'') (JInt 7)] [JObj [(''addr'', JStr ''B'')]], tx_json [input_json (JStr ''A'') (JInt 7)] [output_json (JStr ''B'') (JInt 6)]])\<rparr>)
     = Inr (False, Some (FormatFailed KeyError))
   \<and> is_rx_transaction_to_btc_address (new_address_monitor ''W'') (Reply \<lparr>status_code = 200, body = Some (feed_json [JObj [(''hash'', JStr ''00'')], tx_json [] [], tx_json [input_json (JStr ''A'') (JInt 7)] [JObj [(''addr'', JStr ''B'')]], tx_json [input_json (JStr ''A'') (JInt 7)] [output_json (JStr ''B'') (JInt 6)]])\<rparr>)
     = Inr (False, Some (FormatFailed KeyError))
   \<and> get_transactions_from_btc_address (new_address_monitor ''W'') (Reply \<lparr>status_code = 404, body = None\<rparr>) = (Inr [], new_address_monitor ''W'')
   \<and> get_transactions_from_btc_address (new_address_monitor ''W'') (Reply \<lparr>status_code = 200, body = Some (JObj [(''error'', JStr ''busy'')])\<rparr>) = (Inr [], new_address_monitor ''W'')
   \<and> fst (get_transactions_from_btc_address (new_address_monitor ''W'') (Reply \<lparr>status_code = 200, body = Some (feed_json [JObj [(''hash'', JStr ''00'')], tx_json [] [], tx_json [input_json (JStr ''A'') (JInt 7)] [JObj [(''addr'', JStr ''B'')]], tx_json [input_json (JStr ''A'') (JInt 7)] [output_json (JStr ''B'') (JInt 6)]])\<rparr>))
     = Inr [(JStr ''A'', JStr ''B'', JInt 6)]
   \<and> get_transactions_from_btc_address (new_address_monitor ''W'') NetworkFault = (Inl RequestException, new_address_monitor ''W'')
   \<and> get_transactions_from_btc_address (new_address_monitor ''W'') (Reply \<lparr>status_code = 200, body = None\<rparr>) = (Inl ValueError, new_address_monitor ''W'')
   \<and> get_transactions_from_btc_address (new_address_monitor ''W'') (Reply \<lparr>status_code = 200, body = Some (feed_json [tx_json [JObj [(''script'', JStr ''00'')]] [output_json (JStr ''B'') (JInt 6)]])\<rparr>) = (Inl KeyError, new_address_monitor ''W'')
   \<and> block_loop (every_block (Reply \<lparr>status_code = 404, body = None\<rparr>)) [100] \<lparr>sender_addresses = [], recipient_addresses = [], amounts = []\<rparr> = Inr \<lparr>sender_addresses = [], recipient_addresses = [], amounts = []\<rparr>
   \<and> block_loop (every_block (Reply \<lparr>status_code = 200, body = None\<rparr>)) [100] \<lparr>sender_addresses = [], recipient_addresses = [], amounts = []\<rparr> = Inl ValueError
   \<and> block_loop (every_block (Reply \<lparr>status_code = 200, body = Some (JObj [(''error'', JStr ''busy'')])\<rparr>)) [100] \<lparr>sender_addresses = [], recipient_addresses = [], amounts = []\<rparr> = Inl KeyError
   \<and> get_mixed_btc_transactions_from_btc_blocks (new_block_monitor 100 100) (every_block NetworkFault)
     = (Inl RequestException, new_block_monitor 100 100)"
  using
    fault_handling [where self = "new_address_monitor ''W''"
      and r = "\<lparr>status_code = 404, body = None\<rparr>"
      and feed = "JNull"
      and e = "KeyError"
      and reply = "Reply (\<lparr>status_code = 404, body = None\<rparr>)"
      and txs = "[]"
      and tx = "JNull"
      and others = "[]"
      and i = "JNull"
      and ins = "[]"
      and outv = "JNull"
      and api = "every_block (Reply \<lparr>status_code = 404, body = None\<rparr>)"
      and block_num = "100"
      and rest = "[]"
      and ls = "\<lparr>sender_addresses = [], recipient_addresses = [], amounts = []\<rparr>"
      and scanner = "new_block_monitor 100 100"]
    fault_handling [where self = "new_address_monitor ''W''"
      and r = "\<lparr>status_code = 200, body = None\<rparr>"
      and feed = "JNull"
      and e = "KeyError"
      and reply = "Reply (\<lparr>status_code = 200, body = None\<rparr>)"
      and txs = "[]"
      and tx = "JNull"
      and others = "[]"
      and i = "JNull"
      and ins = "[]"
      and outv = "JNull"
      and api = "every_block (Reply \<lparr>status_code = 200, body = None\<rparr>)"
      and block_num = "100"
      and rest = "[]"
      and ls = "\<lparr>sender_addresses = [], recipient_addresses = [], amounts = []\<rparr>"
      and scanner = "new_block_monitor 100 100"]
    fault_handling [where self = "new_address_monitor ''W''"
      and r = "\<lparr>status_code = 200, body = Some (feed_json [JObj [(''hash'', JStr ''00'')], tx_json [] [], tx_json [input_json (JStr ''A'') (JInt 7)] [JObj [(''addr'', JStr ''B'')]], tx_json [input_json (JStr ''A'') (JInt 7)] [output_json (JStr ''B'') (JInt 6)]])\<rparr>"
      and feed = "feed_json [JObj [(''hash'', JStr ''00'')], tx_json [] [], tx_json [input_json (JStr ''A'') (JInt 7)] [JObj [(''addr'', JStr ''B'')]], tx_json [input_json (JStr ''A'') (JInt 7)] [output_json (JStr ''B'') (JInt 6)]]"
      and e = "KeyError"
      and reply = "Reply (\<lparr>status_code = 200, body = Some (feed_json [JObj [(''hash'', JStr ''00'')], tx_json [] [], tx_json [input_json (JStr ''A'') (JInt 7)] [JObj [(''addr'', JStr ''B'')]], tx_json [input_json (JStr ''A'') (JInt 7)] [output_json (JStr ''B'') (JInt 6)]])\<rparr>)"
      and txs = "[JObj [(''hash'', JStr ''00'')], tx_json [] [], tx_json [input_json (JStr ''A'') (JInt 7)] [JObj [(''addr'', JStr ''B'')]], tx_json [input_json (JStr ''A'') (JInt 7)] [output_json (JStr ''B'') (JInt 6)]]"
      and tx = "JNull"
      and others = "[]"
      and i = "JNull"
      and ins = "[]"
      and outv = "JNull"
      and api = "every_block NetworkFault"
      and block_num = "100"
      and rest = "[]"
      and ls = "\<lparr>sender_addresses = [], recipient_addresses = [], amounts = []\<rparr>"
      and scanner = "new_block_monitor 100 100"]
    fault_handling [where self = "new_address_monitor ''W''"
      and r = "\<lparr>status_code = 200, body = Some (JObj [(''error'', JStr ''busy'')])\<rparr>"
      and feed = "JObj [(''error'', JStr ''busy'')]"
      and e = "KeyError"
      and reply = "NetworkFault"
      and txs = "[]"
      and tx = "JNull"
      and others = "[]"
      and i = "JNull"
      and ins = "[]"
      and outv = "JNull"
      and api = "every_block (Reply \<lparr>status_code = 200, body = Some (JObj [(''error'', JStr ''busy'')])\<rparr>)"
      and block_num = "100"
      and rest = "[]"
      and ls = "\<lparr>sender_addresses = [], recipient_addresses = [], amounts = []\<rparr>"
      and scanner = "new_block_monitor 100 100"]
    fault_handling [where self = "new_address_monitor ''W''"
      and r = "\<lparr>status_code = 404, body = None\<rparr>"
      and feed = "JNull"
      and e = "RequestException"
      and reply = "NetworkFault"
      and txs = "[]"
      and tx = "JNull"
      and others = "[]"
      and i = "JNull"
      and ins = "[]"
      and outv = "JNull"
      and api = "every_block NetworkFault"
      and block_num = "100"
      and rest = "[]"
      and ls = "\<lparr>sender_addresses = [], recipient_addresses = [], amounts = []\<rparr>"
      and scanner = "new_block_monitor 100 100"]
    fault_handling [where self = "new_address_monitor ''W''"
      and r = "\<lparr>status_code = 200, body = Some (feed_json [tx_json [JObj [(''script'', JStr ''00'')]] [output_json (JStr ''B'') (JInt 6)]])\<rparr>"
      and feed = "feed_json [tx_json [JObj [(''script'', JStr ''00'')]] [output_json (JStr ''B'') (JInt 6)]]"
      and e = "KeyError"
      and reply = "NetworkFault"
      and txs = "[]"
      and tx = "tx_json [JObj [(''script'', JStr ''00'')]] [output_json (JStr ''B'') (JInt 6)]"
      and others = "[]"
      and i = "JObj [(''script'', JStr ''00'')]"
      and ins = "[]"
      and outv = "JArr [output_json (JStr ''B'') (JInt 6)]"
      and api = "every_block NetworkFault"
      and block_num = "100"
      and rest = "[]"
      and ls = "\<lparr>sender_addresses = [], recipient_addresses = [], amounts = []\<rparr>"
      and scanner = "new_block_monitor 100 100"]
  by (simp add: ok_iff new_address_monitor_def new_block_monitor_def every_block_def
      lacks_key_def feed_json_def tx_json_def input_json_def output_json_def
      tolerated_def first_input_readable_def first_output_readable_def
      normalized_transfer_def first_input_path_def first_output_addr_path_def
      first_output_value_path_def feed_scan_def first_input_addr_def
      List.map_filter_simps)

text \<open>
  C1 fails for the history method and the block scan, where nothing is inside a
  \<^verbatim>\<open>try\<close>: a failed connection, a body that is not JSON and a missing key are raised
  to the caller. In the boolean methods a field of the wrong type raises \<open>TypeError\<close>
  past the \<^verbatim>\<open>except (KeyError, IndexError)\<close> clause.
\<close>

theorem faults_reach_the_caller:
  "fst (get_transactions_from_btc_address (new_address_monitor ''W'') NetworkFault)
     = Inl RequestException
   \<and> fst (get_transactions_from_btc_address (new_address_monitor ''W'')
       (Reply \<lparr>status_code = 200, body = None\<rparr>)) = Inl ValueError
   \<and> fst (get_transactions_from_btc_address (new_address_monitor ''W'')
       (reply_with 200 (feed_json
          [tx_json [JObj [(''prev_out'', JObj [(''value'', JInt 7)])]]
                   [output_json (JStr ''B'') (JInt 6)]]))) = Inl KeyError
   \<and> fst (get_mixed_btc_transactions_from_btc_blocks (new_block_monitor 100 100)
       (every_block (NetworkFault))) = Inl RequestException
   \<and> fst (get_mixed_btc_transactions_from_btc_blocks (new_block_monitor 100 100)
       (every_block (Reply \<lparr>status_code = 200, body = None\<rparr>))) = Inl ValueError
   \<and> fst (get_mixed_btc_transactions_from_btc_blocks (new_block_monitor 100 100)
       (every_block (reply_with 200 (block_json
          [tx_json [input_json (JStr ''X'') (JInt 10), input_json (JStr ''Y'') (JInt 5)]
                   [output_json (JStr ''Z'') (JInt 14), JObj [(''value'', JInt 0)]]]))))
     = Inl KeyError
   \<and> is_tx_transaction_from_btc_address (new_address_monitor ''W'')
       (reply_with 200 (feed_json [tx_json [JNull] []])) = Inl TypeError"
  by (simp add: get_transactions_from_btc_address_def get_mixed_btc_transactions_from_btc_blocks_def
      new_address_monitor_def new_block_monitor_def reply_with_def feed_json_def block_json_def
      tx_json_def input_json_def output_json_def requests_get_def ok_iff response_json_def
      history_step_def from_address_of_def to_address_of_def amount_of_def mix_step_def
      is_tx_transaction_from_btc_address_def unconfirmed_check_def get_checked_def
      raise_for_status_def first_input_addr_def every_block_def)

end
